theory Spec2Isabelle
  imports Main
begin

section \<open>The raw tree and the record graph\<close>

text \<open>
  The raw tree is what \<open>json.load\<close> returns: null, numbers, strings, lists and
  dictionaries. A dictionary is an association list read with \<open>map_of\<close>. Numbers are
  integers here; non-integral numbers and booleans are outside this development.
\<close>

datatype json = JNull | JInt int | JStr string | JList "json list" | JObj "(string \<times> json) list"

text \<open>The classes of \<open>jsontopyobj.py\<close>, in the order of the file.\<close>

datatype model =
    Id_cls | Odometer | ColorCombination | ImageTag | Price | Option_cls | Amount | Balance
  | Finance | Vehicle | Name | Email | Phone | Street | Address | Contact | TimeFrame
  | Customer | Vendor | Provider | Prospect | ADF | Lead

fun cls_name :: "model \<Rightarrow> string" where
  "cls_name Id_cls = ''Id''"
| "cls_name Odometer = ''Odometer''"
| "cls_name ColorCombination = ''ColorCombination''"
| "cls_name ImageTag = ''ImageTag''"
| "cls_name Price = ''Price''"
| "cls_name Option_cls = ''Option''"
| "cls_name Amount = ''Amount''"
| "cls_name Balance = ''Balance''"
| "cls_name Finance = ''Finance''"
| "cls_name Vehicle = ''Vehicle''"
| "cls_name Name = ''Name''"
| "cls_name Email = ''Email''"
| "cls_name Phone = ''Phone''"
| "cls_name Street = ''Street''"
| "cls_name Address = ''Address''"
| "cls_name Contact = ''Contact''"
| "cls_name TimeFrame = ''TimeFrame''"
| "cls_name Customer = ''Customer''"
| "cls_name Vendor = ''Vendor''"
| "cls_name Provider = ''Provider''"
| "cls_name Prospect = ''Prospect''"
| "cls_name ADF = ''ADF''"
| "cls_name Lead = ''Lead''"

text \<open>
  A validated value: \<open>None\<close>, an \<open>int\<close>, a \<open>str\<close>, a list, or an instance of one of the
  classes with its attributes in declaration order, keyed by field name.
\<close>

datatype pyval = VNone | VInt int | VStr string | VList "pyval list"
  | VModel model "(string \<times> pyval) list"

type_synonym attrs = "(string \<times> pyval) list"

text \<open>The annotations used by the classes.\<close>

datatype ty = TStr | TInt | TPositiveInt | TModel model | TList ty | TUnion "ty list"
  | TOptional ty

text \<open>
  Exceptions that no handler inside the validation catches. A validator function either
  returns, raises \<open>ValueError\<close> (which the validation turns into an error of the
  document), or raises something else, which leaves the validation at once.
\<close>

datatype exn = TypeError | AttributeError | OtherException

datatype 'a outcome = Returns 'a | ValueError string | Uncaught exn

text \<open>One entry of \<open>ValidationError.errors()\<close>: its \<open>loc\<close>, \<open>type\<close> and \<open>msg\<close>.\<close>

datatype loc_item = Key string | Index nat

datatype line_error = LineError (loc: "loc_item list") (err_type: string) (msg: string)

datatype 'a result = Ok 'a | Invalid "line_error list" | Raised exn

text \<open>
  Library functions whose tables are not part of the repository are parameters:
  how a string is read as an integer, which strings \<open>datetime.fromisoformat\<close> parses,
  and which strings \<open>pycountry.countries.lookup\<close> finds. The hash seed of the process
  decides the order in which a set of strings is iterated.
\<close>

record library =
  str_as_int :: "string \<Rightarrow> int option"
  fromisoformat :: "string \<Rightarrow> bool"
  countries_lookup :: "string \<Rightarrow> bool"
  hash_seed :: nat

section \<open>Helper predicates of the module\<close>

definition upper :: "char \<Rightarrow> bool" where
  "upper c = (65 \<le> (of_char c :: nat) \<and> (of_char c :: nat) \<le> 90)"

text \<open>
  \<open>re.match(r"^[A-Z]{3}$", s)\<close>: three letters of \<open>A\<close>..\<open>Z\<close>, and \<open>$\<close> matches at the
  end of the string or just before a newline that ends it.
\<close>

fun re_match_currency :: "string \<Rightarrow> bool" where
  "re_match_currency [a, b, c] = (upper a \<and> upper b \<and> upper c)"
| "re_match_currency [a, b, c, d] = (upper a \<and> upper b \<and> upper c \<and> d = CHR 0x0A)"
| "re_match_currency s = False"

text \<open>\<open>re.match\<close> raises \<open>TypeError\<close> on anything that is not a string.\<close>

definition is_valid_currency_code :: "pyval \<Rightarrow> exn + bool" where
  "is_valid_currency_code currency_code =
     (case currency_code of VStr s \<Rightarrow> Inr (re_match_currency s) | _ \<Rightarrow> Inl TypeError)"

text \<open>
  \<open>datetime.fromisoformat\<close> raises \<open>ValueError\<close> on a string it cannot parse, which
  \<open>is_iso8601\<close> catches, and \<open>TypeError\<close> on a non-string, which it does not.
\<close>

definition is_iso8601 :: "library \<Rightarrow> pyval \<Rightarrow> exn + bool" where
  "is_iso8601 L string =
     (case string of VStr s \<Rightarrow> Inr (fromisoformat L s) | _ \<Rightarrow> Inl TypeError)"

text \<open>\<open>pycountry\<close>'s lookup raises \<open>LookupError\<close> on a non-string as on an unknown one.\<close>

definition is_valid_iso_3166_alpha_2 :: "library \<Rightarrow> pyval \<Rightarrow> bool" where
  "is_valid_iso_3166_alpha_2 L code =
     (case code of VStr s \<Rightarrow> countries_lookup L s | _ \<Rightarrow> False)"

text \<open>Python's order comparisons of a value with an integer.\<close>

definition py_less :: "pyval \<Rightarrow> int \<Rightarrow> exn + bool" where
  "py_less val n = (case val of VInt i \<Rightarrow> Inr (i < n) | _ \<Rightarrow> Inl TypeError)"

definition py_ge :: "pyval \<Rightarrow> int \<Rightarrow> exn + bool" where
  "py_ge val n = (case val of VInt i \<Rightarrow> Inr (i \<ge> n) | _ \<Rightarrow> Inl TypeError)"

definition py_le :: "pyval \<Rightarrow> int \<Rightarrow> exn + bool" where
  "py_le val n = (case val of VInt i \<Rightarrow> Inr (i \<le> n) | _ \<Rightarrow> Inl TypeError)"

text \<open>\<open>value not in (None, "a", "b", ...)\<close> then \<open>raise ValueError(m)\<close>, else \<open>return value\<close>.\<close>

definition not_in_raise :: "pyval \<Rightarrow> pyval list \<Rightarrow> string \<Rightarrow> pyval outcome" where
  "not_in_raise val allowed m = (if val \<notin> set allowed then ValueError m else Returns val)"

section \<open>Field validators\<close>

definition Odometer_validate_status :: "pyval \<Rightarrow> pyval outcome" where
  "Odometer_validate_status val =
     not_in_raise val [VNone, VStr ''unknown'', VStr ''rolledover'', VStr ''replaced'',
       VStr ''original''] ''Invalid Status input''"

definition Odometer_validate_units :: "pyval \<Rightarrow> pyval outcome" where
  "Odometer_validate_units val =
     not_in_raise val [VNone, VStr ''km'', VStr ''mi''] ''Invalid Units input''"

definition ColorCombination_validate_preference :: "pyval \<Rightarrow> pyval outcome" where
  "ColorCombination_validate_preference val =
     (case py_less val 1 of Inl e \<Rightarrow> Uncaught e
      | Inr b \<Rightarrow> if b then ValueError ''Invalid Preference input'' else Returns val)"

definition Price_validate_type :: "pyval \<Rightarrow> pyval outcome" where
  "Price_validate_type val =
     not_in_raise val [VNone, VStr ''quote'', VStr ''offer'', VStr ''msrp'', VStr ''invoice'',
       VStr ''call'', VStr ''apraisal'', VStr ''asking''] ''Invalid Price Type input''"

definition Price_validate_currency :: "pyval \<Rightarrow> pyval outcome" where
  "Price_validate_currency val =
     (case is_valid_currency_code val of Inl e \<Rightarrow> Uncaught e
      | Inr b \<Rightarrow> if b = False then ValueError ''Invalid Currency input'' else Returns val)"

definition Price_validate_delta :: "pyval \<Rightarrow> pyval outcome" where
  "Price_validate_delta val =
     not_in_raise val [VNone, VStr ''absolute'', VStr ''relative'', VStr ''percentage'']
       ''Invalid Price Delta input''"

definition Price_validate_relativeto :: "pyval \<Rightarrow> pyval outcome" where
  "Price_validate_relativeto val =
     not_in_raise val [VNone, VStr ''msrp'', VStr ''invoice''] ''Invalid Price Type input''"

definition Option_validate_weighting :: "pyval \<Rightarrow> pyval outcome" where
  "Option_validate_weighting val =
     (case py_ge val 100 of Inl e \<Rightarrow> Uncaught e
      | Inr True \<Rightarrow> ValueError ''Invalid Weighting input''
      | Inr False \<Rightarrow>
         (case py_le val (- 100) of Inl e \<Rightarrow> Uncaught e
          | Inr True \<Rightarrow> ValueError ''Invalid Weighting input''
          | Inr False \<Rightarrow> Returns val))"

definition Amount_validate_type :: "pyval \<Rightarrow> pyval outcome" where
  "Amount_validate_type val =
     not_in_raise val [VNone, VStr ''downpayment'', VStr ''monthly'', VStr ''total'']
       ''Invalid Type input''"

definition Amount_validate_limit :: "pyval \<Rightarrow> pyval outcome" where
  "Amount_validate_limit val =
     not_in_raise val [VNone, VStr ''maximum'', VStr ''minimum'', VStr ''exact'']
       ''Invalid Limit input''"

definition Amount_validate_currency :: "pyval \<Rightarrow> pyval outcome" where
  "Amount_validate_currency val =
     (case is_valid_currency_code val of Inl e \<Rightarrow> Uncaught e
      | Inr b \<Rightarrow> if b = False then ValueError ''Invalid Currency input'' else Returns val)"

definition Balance_validate_type :: "pyval \<Rightarrow> pyval outcome" where
  "Balance_validate_type val =
     not_in_raise val [VNone, VStr ''finance'', VStr ''residual''] ''Invalid Type input''"

definition Balance_validate_currency :: "pyval \<Rightarrow> pyval outcome" where
  "Balance_validate_currency val =
     (case is_valid_currency_code val of Inl e \<Rightarrow> Uncaught e
      | Inr b \<Rightarrow> if b = False then ValueError ''Invalid Currency input'' else Returns val)"

definition Finance_validate_method :: "pyval \<Rightarrow> pyval outcome" where
  "Finance_validate_method val =
     not_in_raise val [VNone, VStr ''cash'', VStr ''finance'', VStr ''lease'']
       ''Invalid Status input''"

definition Vehicle_validate_interest :: "pyval \<Rightarrow> pyval outcome" where
  "Vehicle_validate_interest val =
     not_in_raise val [VNone, VStr ''buy'', VStr ''lease'', VStr ''sell'', VStr ''trade-in'',
       VStr ''test-drive''] ''Invalid Interest input''"

definition Vehicle_validate_status :: "pyval \<Rightarrow> pyval outcome" where
  "Vehicle_validate_status val =
     not_in_raise val [VNone, VStr ''new'', VStr ''used''] ''Invalid Status input''"

definition Vehicle_validate_conditon :: "pyval \<Rightarrow> pyval outcome" where
  "Vehicle_validate_conditon val =
     not_in_raise val [VNone, VStr ''excellent'', VStr ''good'', VStr ''fair'', VStr ''poor'',
       VStr ''unknown''] ''Invalid Condition input''"

definition Name_validate_part :: "pyval \<Rightarrow> pyval outcome" where
  "Name_validate_part val =
     not_in_raise val [VNone, VStr ''first'', VStr ''middle'', VStr ''suffix'', VStr ''last'',
       VStr ''full''] ''Invalid Name Part input''"

definition Name_validate_type :: "pyval \<Rightarrow> pyval outcome" where
  "Name_validate_type val =
     not_in_raise val [VNone, VStr ''individual'', VStr ''business'']
       ''Invalid Name Type input''"

definition Phone_validate_type :: "pyval \<Rightarrow> pyval outcome" where
  "Phone_validate_type val =
     not_in_raise val [VNone, VStr ''phone'', VStr ''fax'', VStr ''cellphone'', VStr ''pager'']
       ''Invalid Phone Type input''"

definition Phone_validate_time :: "pyval \<Rightarrow> pyval outcome" where
  "Phone_validate_time val =
     not_in_raise val [VNone, VStr ''morning'', VStr ''afternoon'', VStr ''evening'',
       VStr ''nopreference'', VStr ''day''] ''Invalid Phone Time input''"

definition Street_validate_line :: "pyval \<Rightarrow> pyval outcome" where
  "Street_validate_line val =
     not_in_raise val [VNone, VStr ''1'', VStr ''2'', VStr ''3'', VStr ''4'', VStr ''5'']
       ''Invalid Street Line input''"

definition Address_validate_type :: "pyval \<Rightarrow> pyval outcome" where
  "Address_validate_type val =
     not_in_raise val [VNone, VStr ''work'', VStr ''home'', VStr ''delivery'']
       ''Invalid Address Type input''"

definition Address_validate_country :: "library \<Rightarrow> pyval \<Rightarrow> pyval outcome" where
  "Address_validate_country L val =
     (if is_valid_iso_3166_alpha_2 L val = False then ValueError ''Invalid Country input''
      else Returns val)"

definition TimeFrame_validate_earliest_date :: "library \<Rightarrow> pyval \<Rightarrow> pyval outcome" where
  "TimeFrame_validate_earliest_date L val =
     (case is_iso8601 L val of Inl e \<Rightarrow> Uncaught e
      | Inr b \<Rightarrow> if b = False then ValueError ''Invalid Earliest Date input'' else Returns val)"

definition TimeFrame_validate_latest_date :: "library \<Rightarrow> pyval \<Rightarrow> pyval outcome" where
  "TimeFrame_validate_latest_date L val =
     (case is_iso8601 L val of Inl e \<Rightarrow> Uncaught e
      | Inr b \<Rightarrow> if b = False then ValueError ''Invalid Latest Date input'' else Returns val)"

section \<open>Whole-record validators\<close>

text \<open>
  \<open>check_required_fields\<close> reads each name of \<open>required_fields\<close> with \<open>getattr\<close>
  (an \<open>AttributeError\<close> for a name the instance does not have), keeps those whose
  value is \<open>None\<close>, and raises \<open>ValueError\<close> when any is left.
\<close>

fun empty_required_fields :: "string list \<Rightarrow> attrs \<Rightarrow> exn + string list" where
  "empty_required_fields [] inst = Inr []"
| "empty_required_fields (field # others) inst =
     (case map_of inst field of None \<Rightarrow> Inl AttributeError
      | Some v \<Rightarrow>
         (case empty_required_fields others inst of Inl e \<Rightarrow> Inl e
          | Inr rest \<Rightarrow> Inr (if v = VNone then field # rest else rest)))"

fun join :: "string \<Rightarrow> string list \<Rightarrow> string" where
  "join sep [] = []"
| "join sep [x] = x"
| "join sep (x # y # ys) = x @ sep @ join sep (y # ys)"

definition required_check :: "string \<Rightarrow> string list \<Rightarrow> attrs \<Rightarrow> attrs outcome" where
  "required_check cls required_fields inst =
     (case empty_required_fields required_fields inst of Inl e \<Rightarrow> Uncaught e
      | Inr missing \<Rightarrow>
         if missing \<noteq> [] then
           ValueError (''The following required fields in '' @ cls @ '' are missing: ''
                       @ join '', '' missing)
         else Returns inst)"

text \<open>
  \<open>required_fields\<close> of \<open>Vehicle\<close> is a set of three names, iterated in an order that
  depends on the hash seed: the elements written in the source, possibly reversed, then
  rotated. For three elements these are all six orders. The other classes have a set of
  one name.
\<close>

definition set_iteration :: "nat \<Rightarrow> string list \<Rightarrow> string list" where
  "set_iteration seed xs =
     (if xs = [] then []
      else rotate (seed mod length xs) (if even (seed div length xs) then xs else rev xs))"

definition Vehicle_check_required_fields :: "library \<Rightarrow> attrs \<Rightarrow> attrs outcome" where
  "Vehicle_check_required_fields L vehicle =
     required_check ''Vehicle'' (set_iteration (hash_seed L) [''year'', ''make'', ''model''])
       vehicle"

definition Contact_check_required_fields :: "attrs \<Rightarrow> attrs outcome" where
  "Contact_check_required_fields contact = required_check ''Contact'' [''name''] contact"

text \<open>\<open>required_fields\<close> of \<open>Customer\<close> is the empty dictionary.\<close>

definition Customer_check_required_fields :: "attrs \<Rightarrow> attrs outcome" where
  "Customer_check_required_fields customer = required_check ''Customer'' [] customer"

definition Vendor_check_required_fields :: "attrs \<Rightarrow> attrs outcome" where
  "Vendor_check_required_fields vendor = required_check ''Vendor'' [''vendorname''] vendor"

definition Provider_check_required_fields :: "attrs \<Rightarrow> attrs outcome" where
  "Provider_check_required_fields provider = required_check ''Provider'' [''name''] provider"

text \<open>
  \<open>TimeFrame.validate_dates\<close>. Its \<open>print(values)\<close> is accounted for in \<open>trace\<close> below.
\<close>

definition TimeFrame_validate_dates :: "attrs \<Rightarrow> attrs outcome" where
  "TimeFrame_validate_dates vals =
     (case map_of vals ''earliest_date'' of None \<Rightarrow> Uncaught AttributeError
      | Some e \<Rightarrow>
         if e = VNone then
           (case map_of vals ''latest_date'' of None \<Rightarrow> Uncaught AttributeError
            | Some l \<Rightarrow>
               if l = VNone then
                 ValueError
                   ''At least one of 'earliest_date' or 'latest_date' must be provided.''
               else Returns vals)
         else Returns vals)"

section \<open>The class declarations\<close>

text \<open>
  A field of a class: its name, its alias if it has one, its annotation, its default
  (none for a field without one) and the \<open>field_validator\<close> attached to it.
\<close>

record field_info =
  f_name :: string
  f_alias :: "string option"
  f_type :: ty
  f_default :: "pyval option"
  f_validator :: "(pyval \<Rightarrow> pyval outcome) option"

text \<open>\<open>name: Optional[t] = Field(alias=a, default=None)\<close>, or \<open>= None\<close> without alias.\<close>

definition optional ::
  "string \<Rightarrow> string option \<Rightarrow> ty \<Rightarrow> (pyval \<Rightarrow> pyval outcome) option \<Rightarrow> field_info" where
  "optional n a t v =
     \<lparr>f_name = n, f_alias = a, f_type = TOptional t, f_default = Some VNone, f_validator = v\<rparr>"

text \<open>\<open>name: t\<close>, a field without a default.\<close>

definition required :: "string \<Rightarrow> ty \<Rightarrow> field_info" where
  "required n t =
     \<lparr>f_name = n, f_alias = None, f_type = t, f_default = None, f_validator = None\<rparr>"

fun model_fields :: "library \<Rightarrow> model \<Rightarrow> field_info list" where
  "model_fields L Id_cls =
     [optional ''sequence'' (Some ''@sequence'') TPositiveInt None,
      optional ''source'' (Some ''@source'') TStr None]"
| "model_fields L Odometer =
     [optional ''status'' (Some ''@status'') TStr (Some Odometer_validate_status),
      optional ''units'' (Some ''@units'') TStr (Some Odometer_validate_units),
      optional ''odometer'' (Some ''#text'') TInt None]"
| "model_fields L ColorCombination =
     [optional ''interior_color'' None TStr None,
      optional ''exterior_color'' None TStr None,
      optional ''preference'' None TInt (Some ColorCombination_validate_preference)]"
| "model_fields L ImageTag =
     [optional ''width'' (Some ''@width'') TStr None,
      optional ''height'' (Some ''@height'') TStr None,
      optional ''alt_text'' (Some ''@alttext'') TStr None,
      optional ''image_tag'' (Some ''#text'') TStr None]"
| "model_fields L Price =
     [optional ''type'' (Some ''@type'') TStr (Some Price_validate_type),
      optional ''currency'' (Some ''@curreny'') TStr (Some Price_validate_currency),
      optional ''delta'' (Some ''@delta'') TStr (Some Price_validate_delta),
      optional ''relative_to'' (Some ''@relative_to'') TStr (Some Price_validate_relativeto),
      optional ''source'' (Some ''@source'') TStr None,
      optional ''price'' (Some ''@price'') TInt None]"
| "model_fields L Option_cls =
     [optional ''option_name'' None TStr None,
      optional ''manufacture_code'' None TStr None,
      optional ''stock'' None TStr None,
      optional ''weighting'' None TInt (Some Option_validate_weighting),
      optional ''price'' None (TModel Price) None]"
| "model_fields L Amount =
     [optional ''type'' (Some ''@type'') TStr (Some Amount_validate_type),
      optional ''limit'' (Some ''@limit'') TStr (Some Amount_validate_limit),
      optional ''currency'' (Some ''@currency'') TStr (Some Amount_validate_currency),
      optional ''amount'' None TInt None]"
| "model_fields L Balance =
     [optional ''type'' (Some ''@type'') TStr (Some Balance_validate_type),
      optional ''currency'' (Some ''@currency'') TStr (Some Balance_validate_currency),
      optional ''balance'' None TInt None]"
| "model_fields L Finance =
     [optional ''method'' None TStr (Some Finance_validate_method),
      optional ''amount'' None (TModel Amount) None,
      optional ''balance'' None (TModel Balance) None]"
| "model_fields L Vehicle =
     [optional ''interest'' (Some ''@interest'') TStr (Some Vehicle_validate_interest),
      optional ''status'' (Some ''@status'') TStr (Some Vehicle_validate_status),
      optional ''id'' None (TModel Id_cls) None,
      required ''year'' TStr,
      required ''make'' TStr,
      required ''model'' TStr,
      optional ''vin'' None TStr None,
      optional ''stock'' None TStr None,
      optional ''trim'' None TStr None,
      optional ''doors'' None TStr None,
      optional ''bodystyle'' None TStr None,
      optional ''odometer'' None (TModel Odometer) None,
      optional ''condition'' None TStr (Some Vehicle_validate_conditon),
      optional ''color_combination'' None
        (TUnion [TModel ColorCombination, TList (TModel ColorCombination)]) None,
      optional ''imagetag'' None (TModel ImageTag) None,
      optional ''price'' None (TModel Price) None,
      optional ''price_comments'' None TStr None,
      optional ''option'' None (TModel Option_cls) None,
      optional ''finance'' None (TModel Finance) None,
      optional ''comments'' None TStr None]"
| "model_fields L Name =
     [optional ''part'' (Some ''@part'') TStr (Some Name_validate_part),
      optional ''type'' (Some ''@type'') TStr (Some Name_validate_type),
      optional ''name'' (Some ''#text'') TStr None]"
| "model_fields L Email =
     [optional ''preferred_contact'' (Some ''@preferredcontact'') TInt None,
      optional ''email'' (Some ''#text'') TStr None]"
| "model_fields L Phone =
     [optional ''type'' (Some ''@type'') TStr (Some Phone_validate_type),
      optional ''time'' (Some ''@time'') TStr (Some Phone_validate_time),
      optional ''preferred_contact'' (Some ''@preferredcontact'') TInt None,
      optional ''phone'' (Some ''#text'') TStr None]"
| "model_fields L Street =
     [optional ''line'' (Some ''@line'') TStr (Some Street_validate_line),
      optional ''street'' (Some ''#text'') TStr None]"
| "model_fields L Address =
     [optional ''type'' (Some ''@type'') TStr (Some Address_validate_type),
      optional ''street'' None (TModel Street) None,
      optional ''apartment'' None TStr None,
      optional ''city'' None TStr None,
      optional ''regioncode'' None TStr None,
      optional ''postalcode'' None TStr None,
      optional ''country'' None TStr (Some (Address_validate_country L))]"
| "model_fields L Contact =
     [optional ''primary_contact'' (Some ''@primarycontact'') TInt None,
      optional ''name'' None (TUnion [TStr, TModel Name, TList (TModel Name)]) None,
      optional ''email'' None (TUnion [TStr, TModel Email]) None,
      optional ''phone'' None (TUnion [TStr, TModel Phone, TList (TModel Phone)]) None,
      optional ''address'' None (TModel Address) None]"
| "model_fields L TimeFrame =
     [optional ''description'' None TStr None,
      optional ''earliest_date'' None TStr (Some (TimeFrame_validate_earliest_date L)),
      optional ''latest_date'' None TStr (Some (TimeFrame_validate_latest_date L))]"
| "model_fields L Customer =
     [optional ''contact'' None (TModel Contact) None,
      optional ''id'' None (TModel Id_cls) None,
      optional ''timeframe'' None (TModel TimeFrame) None,
      optional ''comments'' None TStr None]"
| "model_fields L Vendor =
     [optional ''id'' None (TModel Id_cls) None,
      optional ''vendorname'' None TStr None,
      optional ''url'' None TStr None,
      optional ''contact'' None (TModel Contact) None]"
| "model_fields L Provider =
     [optional ''id'' None (TModel Id_cls) None,
      optional ''name'' None (TModel Name) None,
      optional ''service'' None TStr None,
      optional ''url'' None TStr None,
      optional ''email'' None (TModel Email) None,
      optional ''phone'' None (TModel Phone) None,
      optional ''contact'' None (TModel Contact) None]"
| "model_fields L Prospect =
     [optional ''status'' (Some ''@status'') TStr None,
      optional ''id'' None (TModel Id_cls) None,
      optional ''request_date'' (Some ''requestdate'') TStr None,
      optional ''vehicle'' None (TUnion [TModel Vehicle, TList (TModel Vehicle)]) None,
      optional ''customer'' None (TModel Customer) None,
      optional ''vendor'' None (TModel Vendor) None,
      optional ''provider'' None (TModel Provider) None]"
| "model_fields L ADF = [optional ''prospect'' None (TModel Prospect) None]"
| "model_fields L Lead = [optional ''adf'' None (TModel ADF) None]"

text \<open>The \<open>model_validator(mode="after")\<close> of a class, if it has one.\<close>

fun model_validator :: "library \<Rightarrow> model \<Rightarrow> (attrs \<Rightarrow> attrs outcome) option" where
  "model_validator L Vehicle = Some (Vehicle_check_required_fields L)"
| "model_validator L Contact = Some Contact_check_required_fields"
| "model_validator L TimeFrame = Some TimeFrame_validate_dates"
| "model_validator L Customer = Some Customer_check_required_fields"
| "model_validator L Vendor = Some Vendor_check_required_fields"
| "model_validator L Provider = Some Provider_check_required_fields"
| "model_validator L m = None"

text \<open>The name of the function that is the \<open>model_validator\<close> of a class.\<close>

fun model_validator_name :: "model \<Rightarrow> string option" where
  "model_validator_name Vehicle = Some ''check_required_fields''"
| "model_validator_name Contact = Some ''check_required_fields''"
| "model_validator_name TimeFrame = Some ''validate_dates''"
| "model_validator_name Customer = Some ''check_required_fields''"
| "model_validator_name Vendor = Some ''check_required_fields''"
| "model_validator_name Provider = Some ''check_required_fields''"
| "model_validator_name m = None"

section \<open>The validation of a tree against an annotation\<close>

text \<open>
  What \<open>Lead(**data)\<close> does with the declarations above. The scalars are validated
  in lax mode: a \<open>str\<close> field takes a string only, an \<open>int\<close> field an integer or a
  string that reads as one.
\<close>

definition str_validator :: "json \<Rightarrow> pyval result" where
  "str_validator v =
     (case v of JStr s \<Rightarrow> Ok (VStr s)
      | _ \<Rightarrow> Invalid [LineError [] ''string_type'' ''Input should be a valid string''])"

definition int_validator :: "library \<Rightarrow> json \<Rightarrow> pyval result" where
  "int_validator L v =
     (case v of JInt n \<Rightarrow> Ok (VInt n)
      | JStr s \<Rightarrow>
         (case str_as_int L s of Some n \<Rightarrow> Ok (VInt n)
          | None \<Rightarrow> Invalid [LineError [] ''int_parsing''
              ''Input should be a valid integer, unable to parse string as an integer''])
      | _ \<Rightarrow> Invalid [LineError [] ''int_type'' ''Input should be a valid integer''])"

text \<open>\<open>PositiveInt\<close> is \<open>int\<close> with the constraint \<open>gt=0\<close>.\<close>

definition positive_int_validator :: "library \<Rightarrow> json \<Rightarrow> pyval result" where
  "positive_int_validator L v =
     (case int_validator L v of
        Ok (VInt n) \<Rightarrow>
          if n > 0 then Ok (VInt n)
          else Invalid [LineError [] ''greater_than'' ''Input should be greater than 0'']
      | r \<Rightarrow> r)"

text \<open>An error found below a key, an index or a member of a union gets that step in front
  of its location.\<close>

definition outer :: "loc_item \<Rightarrow> line_error \<Rightarrow> line_error" where
  "outer l e = LineError (l # loc e) (err_type e) (msg e)"

text \<open>
  The fields of a record and the items of a list are validated one after the other.
  The errors of all of them are gathered; an exception that is not a validation error
  leaves at the first field or item that raises it.
\<close>

fun collect :: "(loc_item \<times> 'a result) list \<Rightarrow> 'a list result" where
  "collect [] = Ok []"
| "collect ((l, Raised e) # rest) = Raised e"
| "collect ((l, Ok v) # rest) =
     (case collect rest of Ok vs \<Rightarrow> Ok (v # vs) | Invalid es \<Rightarrow> Invalid es
      | Raised e \<Rightarrow> Raised e)"
| "collect ((l, Invalid es) # rest) =
     (case collect rest of Ok vs \<Rightarrow> Invalid (map (outer l) es)
      | Invalid es' \<Rightarrow> Invalid (map (outer l) es @ es')
      | Raised e \<Rightarrow> Raised e)"

text \<open>
  A union takes the first member that accepts the input, and reports the errors of all
  members, each under the member's label, when none does. The members of every union of
  the declarations accept disjoint kinds of input (a string, a dictionary, a list), so at
  most one of them can accept. The label of a member is the name of its validator: the
  class name, wrapped as \<open>function-after[f(), C]\<close> for a class \<open>C\<close> with the
  \<open>model_validator\<close> \<open>f\<close>, and \<open>list[...]\<close> around the label of the items. Only strings,
  classes and lists of classes are members of a union in the declarations.
\<close>

fun union_label :: "ty \<Rightarrow> string" where
  "union_label TStr = ''str''"
| "union_label TInt = ''int''"
| "union_label TPositiveInt = ''constrained-int''"
| "union_label (TModel m) =
     (case model_validator_name m of None \<Rightarrow> cls_name m
      | Some f \<Rightarrow> ''function-after['' @ f @ ''(), '' @ cls_name m @ '']'')"
| "union_label (TList t) = ''list['' @ union_label t @ '']''"
| "union_label (TUnion ts) = ''union['' @ join '','' (map union_label ts) @ '']''"
| "union_label (TOptional t) = ''nullable['' @ union_label t @ '']''"

fun union_result :: "(string \<times> pyval result) list \<Rightarrow> line_error list \<Rightarrow> pyval result" where
  "union_result [] errors = Invalid errors"
| "union_result ((label, Ok v) # rest) errors = Ok v"
| "union_result ((label, Raised e) # rest) errors = Raised e"
| "union_result ((label, Invalid es) # rest) errors =
     union_result rest (errors @ map (outer (Key label)) es)"

text \<open>
  A \<open>field_validator\<close> runs after the annotation has accepted the value, on the
  validated value. A \<open>ValueError\<close> becomes an error of type \<open>value_error\<close> at the field;
  any other exception is not caught.
\<close>

definition value_error :: "string \<Rightarrow> line_error" where
  "value_error m = LineError [] ''value_error'' (''Value error, '' @ m)"

definition after_validator ::
  "(pyval \<Rightarrow> pyval outcome) option \<Rightarrow> pyval result \<Rightarrow> pyval result" where
  "after_validator g r =
     (case g of None \<Rightarrow> r
      | Some f \<Rightarrow>
         (case r of
            Ok v \<Rightarrow>
              (case f v of Returns v' \<Rightarrow> Ok v' | ValueError m \<Rightarrow> Invalid [value_error m]
               | Uncaught e \<Rightarrow> Raised e)
          | _ \<Rightarrow> r))"

text \<open>The key under which a field is read: its alias, or its name when it has none.\<close>

definition f_key :: "field_info \<Rightarrow> string" where
  "f_key f = (case f_alias f of Some a \<Rightarrow> a | None \<Rightarrow> f_name f)"

text \<open>A key that is absent: the default, which is not validated, or the error \<open>missing\<close>.\<close>

definition absent :: "field_info \<Rightarrow> pyval result" where
  "absent f =
     (case f_default f of Some d \<Rightarrow> Ok d
      | None \<Rightarrow> Invalid [LineError [] ''missing'' ''Field required''])"

text \<open>
  Once every field has a value the instance is built and the \<open>model_validator\<close> of the
  class runs on it; it does not run when a field has failed.
\<close>

definition model_result ::
  "library \<Rightarrow> model \<Rightarrow> field_info list \<Rightarrow> pyval list result \<Rightarrow> pyval result" where
  "model_result L m fs r =
     (case r of
        Ok vs \<Rightarrow>
          (case model_validator L m of None \<Rightarrow> Ok (VModel m (zip (map f_name fs) vs))
           | Some g \<Rightarrow>
              (case g (zip (map f_name fs) vs) of Returns inst \<Rightarrow> Ok (VModel m inst)
               | ValueError s \<Rightarrow> Invalid [value_error s]
               | Uncaught e \<Rightarrow> Raised e))
      | Invalid es \<Rightarrow> Invalid es
      | Raised e \<Rightarrow> Raised e)"

definition list_result :: "pyval list result \<Rightarrow> pyval result" where
  "list_result r =
     (case r of Ok vs \<Rightarrow> Ok (VList vs) | Invalid es \<Rightarrow> Invalid es | Raised e \<Rightarrow> Raised e)"

function validate :: "library \<Rightarrow> ty \<Rightarrow> json \<Rightarrow> pyval result" where
  "validate L TStr v = str_validator v"
| "validate L TInt v = int_validator L v"
| "validate L TPositiveInt v = positive_int_validator L v"
| "validate L (TOptional t) v = (if v = JNull then Ok VNone else validate L t v)"
| "validate L (TList t) v =
     (case v of
        JList xs \<Rightarrow>
          list_result (collect (zip (map Index [0..<length xs]) (map (validate L t) xs)))
      | _ \<Rightarrow> Invalid [LineError [] ''list_type'' ''Input should be a valid list''])"
| "validate L (TUnion ts) v = union_result (map (\<lambda>t. (union_label t, validate L t v)) ts) []"
| "validate L (TModel m) v =
     (case v of
        JObj kvs \<Rightarrow>
          model_result L m (model_fields L m)
            (collect (map (\<lambda>f. (Key (f_key f),
                case map_of kvs (f_key f) of None \<Rightarrow> absent f
                | Some raw \<Rightarrow> after_validator (f_validator f) (validate L (f_type f) raw)))
              (model_fields L m)))
      | _ \<Rightarrow> Invalid [LineError [] ''model_type''
               (''Input should be a valid dictionary or instance of '' @ cls_name m)])"
  by pat_completeness auto

termination validate
proof (relation "inv_image (less_than <*lex*> less_than) (\<lambda>(L, t, v). (size v, size t))")
  have below: "size raw < Suc (size_list (size_prod (\<lambda>x. 0) size) kvs)"
    if "map_of kvs k = Some raw" for kvs :: "(string \<times> json) list" and k raw
    using that by (induction kvs) (auto split: if_splits)
  fix L :: library and m :: model and v :: json and kvs f raw
  assume "v = JObj kvs" "f \<in> set (model_fields L m)" "map_of kvs (f_key f) = Some raw"
  then show "((L, f_type f, raw), (L, TModel m, v))
      \<in> inv_image (less_than <*lex*> less_than) (\<lambda>(L, t, v). (size v, size t))"
    using below [of kvs "f_key f" raw] by simp
qed (auto simp: less_Suc_eq_le size_list_estimation')

text \<open>
  The validation of one field of a record read from the dictionary \<open>kvs\<close>, and of all
  of them, as in the equation of \<open>validate\<close> for a class.
\<close>

definition validate_field :: "library \<Rightarrow> field_info \<Rightarrow> (string \<times> json) list \<Rightarrow> pyval result" where
  "validate_field L f kvs =
     (case map_of kvs (f_key f) of None \<Rightarrow> absent f
      | Some raw \<Rightarrow> after_validator (f_validator f) (validate L (f_type f) raw))"

definition field_results ::
  "library \<Rightarrow> model \<Rightarrow> (string \<times> json) list \<Rightarrow> (loc_item \<times> pyval result) list" where
  "field_results L m kvs = map (\<lambda>f. (Key (f_key f), validate_field L f kvs)) (model_fields L m)"

text \<open>
  What the validation prints while it runs: \<open>validate_dates\<close> prints the instance
  before it checks the dates, and no other validator prints. The steps run in order and
  stop at the first exception that is not a validation error; the members of a union
  stop at the first that accepts.
\<close>

fun model_prints :: "model \<Rightarrow> attrs \<Rightarrow> pyval list" where
  "model_prints TimeFrame inst = [VModel TimeFrame inst]"
| "model_prints m inst = []"

fun trace_seq :: "(pyval list \<times> 'a result) list \<Rightarrow> pyval list" where
  "trace_seq [] = []"
| "trace_seq ((ps, Raised e) # rest) = ps"
| "trace_seq ((ps, r) # rest) = ps @ trace_seq rest"

fun trace_union :: "(pyval list \<times> 'a result) list \<Rightarrow> pyval list" where
  "trace_union [] = []"
| "trace_union ((ps, Invalid es) # rest) = ps @ trace_union rest"
| "trace_union ((ps, r) # rest) = ps"

function trace :: "library \<Rightarrow> ty \<Rightarrow> json \<Rightarrow> pyval list" where
  "trace L TStr v = []"
| "trace L TInt v = []"
| "trace L TPositiveInt v = []"
| "trace L (TOptional t) v = (if v = JNull then [] else trace L t v)"
| "trace L (TList t) v =
     (case v of JList xs \<Rightarrow> trace_seq (map (\<lambda>x. (trace L t x, validate L t x)) xs)
      | _ \<Rightarrow> [])"
| "trace L (TUnion ts) v = trace_union (map (\<lambda>t. (trace L t v, validate L t v)) ts)"
| "trace L (TModel m) v =
     (case v of
        JObj kvs \<Rightarrow>
          trace_seq (map (\<lambda>f. (case map_of kvs (f_key f) of None \<Rightarrow> []
                                 | Some raw \<Rightarrow> trace L (f_type f) raw,
                               validate_field L f kvs))
                      (model_fields L m))
          @ (case collect (field_results L m kvs) of
               Ok vs \<Rightarrow> model_prints m (zip (map f_name (model_fields L m)) vs)
             | _ \<Rightarrow> [])
      | _ \<Rightarrow> [])"
  by pat_completeness auto

termination trace
proof (relation "inv_image (less_than <*lex*> less_than) (\<lambda>(L, t, v). (size v, size t))")
  have below: "size raw < Suc (size_list (size_prod (\<lambda>x. 0) size) kvs)"
    if "map_of kvs k = Some raw" for kvs :: "(string \<times> json) list" and k raw
    using that by (induction kvs) (auto split: if_splits)
  fix L :: library and m :: model and v :: json and kvs f raw
  assume "v = JObj kvs" "f \<in> set (model_fields L m)" "map_of kvs (f_key f) = Some raw"
  then show "((L, f_type f, raw), (L, TModel m, v))
      \<in> inv_image (less_than <*lex*> less_than) (\<lambda>(L, t, v). (size v, size t))"
    using below [of kvs "f_key f" raw] by simp
qed (auto simp: less_Suc_eq_le size_list_estimation')

section \<open>The script\<close>

text \<open>\<open>model_dump()\<close>: every instance becomes a dictionary keyed by field name.\<close>

fun model_dump :: "pyval \<Rightarrow> json" where
  "model_dump VNone = JNull"
| "model_dump (VInt n) = JInt n"
| "model_dump (VStr s) = JStr s"
| "model_dump (VList xs) = JList (map model_dump xs)"
| "model_dump (VModel m inst) = JObj (map (\<lambda>(k, v). (k, model_dump v)) inst)"

text \<open>
  The script first imports \<open>xmltodict1\<close>, whose module body converts \<open>lead1.xml\<close>,
  prints the JSON text and writes it to a file: the import either raises, and the script
  ends there with a traceback, or prints that text. Then reading the file the user names
  gives one of the two failures the script names, any other exception, or the tree.
\<close>

datatype imported = ImportRaised | Imported string

datatype loaded = FileNotFoundError | JSONDecodeError | OtherError exn | Data json

text \<open>
  What appears on the console, one entry for each \<open>print\<close>, for the prompt of \<open>input\<close>
  and for the traceback of an exception that nothing catches.
\<close>

datatype printed =
    PData json
  | PPrompt string
  | PValues pyval
  | PLead pyval
  | PJson json
  | PText string
  | PValidationError "line_error list"
  | PException exn
  | PTraceback

text \<open>\<open>Lead(**data)\<close>: \<open>**\<close> needs a dictionary.\<close>

definition Lead_init :: "library \<Rightarrow> json \<Rightarrow> pyval result" where
  "Lead_init L data =
     (case data of JObj kvs \<Rightarrow> validate L (TModel Lead) data | _ \<Rightarrow> Raised TypeError)"

text \<open>
  The handler of \<open>ValidationError\<close>: the messages of the errors of type \<open>value_error\<close>,
  joined by newlines, or, when there is none, the notice followed by the exception.
\<close>

definition error_messages :: "line_error list \<Rightarrow> string list" where
  "error_messages errors = map msg (filter (\<lambda>error. err_type error = ''value_error'') errors)"

definition on_validation_error :: "line_error list \<Rightarrow> printed list" where
  "on_validation_error errors =
     (if error_messages errors \<noteq> [] then [PText (join [CHR 0x0A] (error_messages errors))]
      else [PValidationError errors])"

text \<open>The \<open>try\<close> statement, from \<open>print(data)\<close> to its handlers.\<close>

definition try_block :: "library \<Rightarrow> loaded \<Rightarrow> printed list" where
  "try_block L file =
     PData (JObj []) # PPrompt ''Enter the path to the JSON file: '' #
     (case file of
        FileNotFoundError \<Rightarrow> [PText ''File not found. Please provide a valid file path.'']
      | JSONDecodeError \<Rightarrow> [PText ''Invalid JSON format in the file.'']
      | OtherError e \<Rightarrow> [PException e]
      | Data data \<Rightarrow>
         map PValues (trace L (TModel Lead) data) @
         (case Lead_init L data of
            Ok lead \<Rightarrow> [PLead lead, PJson (model_dump lead)]
          | Invalid errors \<Rightarrow> on_validation_error errors
          | Raised e \<Rightarrow> [PException e]))"

definition main :: "library \<Rightarrow> imported \<Rightarrow> loaded \<Rightarrow> printed list" where
  "main L xml file =
     (case xml of ImportRaised \<Rightarrow> [PTraceback]
      | Imported json_data \<Rightarrow> PText json_data # try_block L file)"

section \<open>Notions used to state the properties\<close>

text \<open>The field of a class with a given name, and its validation.\<close>

definition field_named :: "library \<Rightarrow> model \<Rightarrow> string \<Rightarrow> field_info option" where
  "field_named L m n = find (\<lambda>f. f_name f = n) (model_fields L m)"

definition validate_attr ::
  "library \<Rightarrow> model \<Rightarrow> string \<Rightarrow> (string \<times> json) list \<Rightarrow> pyval result option" where
  "validate_attr L m n kvs = map_option (\<lambda>f. validate_field L f kvs) (field_named L m n)"

text \<open>A raw value that an \<open>int\<close> field reads as the integer \<open>n\<close>.\<close>

definition reads_as :: "library \<Rightarrow> json \<Rightarrow> int \<Rightarrow> bool" where
  "reads_as L raw n =
     (case raw of JInt i \<Rightarrow> i = n | JStr s \<Rightarrow> str_as_int L s = Some n | _ \<Rightarrow> False)"

text \<open>
  Of a sequence of results: the first exception raised, whether some step failed, the
  errors of all steps in order (each under its step), and the values of the steps that
  succeeded.
\<close>

fun raised :: "(loc_item \<times> 'a result) list \<Rightarrow> exn option" where
  "raised [] = None"
| "raised ((l, Raised e) # rest) = Some e"
| "raised ((l, r) # rest) = raised rest"

fun failed :: "(loc_item \<times> 'a result) list \<Rightarrow> bool" where
  "failed [] = False"
| "failed ((l, Invalid es) # rest) = True"
| "failed ((l, r) # rest) = failed rest"

fun gathered :: "(loc_item \<times> 'a result) list \<Rightarrow> line_error list" where
  "gathered [] = []"
| "gathered ((l, Invalid es) # rest) = map (outer l) es @ gathered rest"
| "gathered ((l, r) # rest) = gathered rest"

fun accepted :: "(loc_item \<times> 'a result) list \<Rightarrow> 'a list" where
  "accepted [] = []"
| "accepted ((l, Ok v) # rest) = v # accepted rest"
| "accepted ((l, r) # rest) = accepted rest"

text \<open>
  Whether an annotation can accept the kind of a raw value at all (a string, a number, a list,
  a dictionary, null), whatever its content.
\<close>

fun kind_ok :: "ty \<Rightarrow> json \<Rightarrow> bool" where
  "kind_ok TStr v = (case v of JStr s \<Rightarrow> True | _ \<Rightarrow> False)"
| "kind_ok TInt v = (case v of JInt n \<Rightarrow> True | JStr s \<Rightarrow> True | _ \<Rightarrow> False)"
| "kind_ok TPositiveInt v = (case v of JInt n \<Rightarrow> True | JStr s \<Rightarrow> True | _ \<Rightarrow> False)"
| "kind_ok (TModel m) v = (case v of JObj kvs \<Rightarrow> True | _ \<Rightarrow> False)"
| "kind_ok (TList t) v = (case v of JList xs \<Rightarrow> True | _ \<Rightarrow> False)"
| "kind_ok (TUnion ts) v = (\<exists>t \<in> set ts. kind_ok t v)"
| "kind_ok (TOptional t) v = (v = JNull \<or> kind_ok t v)"

text \<open>
  The value that the validation of \<open>v\<close> against \<open>t\<close> reaches at the location \<open>p\<close>:
  through the key of a field, the index of an item, or the label of the one member of a
  union that can accept the kind of the input.
\<close>

fun reach :: "library \<Rightarrow> ty \<Rightarrow> json \<Rightarrow> loc_item list \<Rightarrow> (ty \<times> json) option" where
  "reach L t v [] = Some (t, v)"
| "reach L (TOptional t) v (l # p) = (if v = JNull then None else reach L t v (l # p))"
| "reach L (TList t) (JList xs) (Index i # p) =
     (if i < length xs then reach L t (xs ! i) p else None)"
| "reach L (TUnion ts) v (Key s # p) =
     (case filter (\<lambda>t. kind_ok t v) ts of
        [t] \<Rightarrow> if union_label t = s then reach L t v p else None
      | _ \<Rightarrow> None)"
| "reach L (TModel m) (JObj kvs) (Key k # p) =
     (case find (\<lambda>f. f_key f = k) (model_fields L m) of
        Some f \<Rightarrow> (case map_of kvs k of Some raw \<Rightarrow> reach L (f_type f) raw p | None \<Rightarrow> None)
      | None \<Rightarrow> None)"
| "reach L t v (l # p) = None"

text \<open>An error found at the location \<open>p\<close> below the value validated.\<close>

definition under :: "loc_item list \<Rightarrow> line_error \<Rightarrow> line_error" where
  "under p e = LineError (p @ loc e) (err_type e) (msg e)"


text \<open>
  An error of type \<open>value_error\<close> carries the message of the \<open>ValueError\<close> after the
  words \<open>Value error, \<close>.
\<close>

definition well_formed :: "line_error \<Rightarrow> bool" where
  "well_formed e = (if err_type e = ''value_error'' then take 13 (msg e) = ''Value error, '' else True)"

text \<open>A key that is absent or null, and the error of \<open>validate_dates\<close>.\<close>

definition null_or_absent :: "(string \<times> json) list \<Rightarrow> string \<Rightarrow> bool" where
  "null_or_absent kvs k = (map_of kvs k = None \<or> map_of kvs k = Some JNull)"

definition either_or_error :: line_error where
  "either_or_error =
     value_error ''At least one of 'earliest_date' or 'latest_date' must be provided.''"

text \<open>A result that is a value.\<close>

fun is_ok :: "'a result \<Rightarrow> bool" where
  "is_ok (Ok v) = True"
| "is_ok r = False"

text \<open>
  The raw tree as it reads under the declarations. The dictionary of a class becomes the
  dictionary of the fields of the class, in declaration order, each under its field name
  and holding what is read under its key, null when the key is absent; keys that no field
  reads are dropped. A string stays as it is, an integer field holds the integer that the
  raw value reads as, and a union is read by its first member that validates.
\<close>

function rename :: "library \<Rightarrow> ty \<Rightarrow> json \<Rightarrow> json" where
  "rename L TStr v = v"
| "rename L TInt v = (case int_validator L v of Ok x \<Rightarrow> model_dump x | _ \<Rightarrow> v)"
| "rename L TPositiveInt v = (case int_validator L v of Ok x \<Rightarrow> model_dump x | _ \<Rightarrow> v)"
| "rename L (TOptional t) v = (if v = JNull then JNull else rename L t v)"
| "rename L (TList t) v = (case v of JList xs \<Rightarrow> JList (map (rename L t) xs) | _ \<Rightarrow> v)"
| "rename L (TUnion ts) v =
     (case find (\<lambda>t. is_ok (validate L t v)) ts of Some t \<Rightarrow> rename L t v | None \<Rightarrow> v)"
| "rename L (TModel m) v =
     (case v of
        JObj kvs \<Rightarrow>
          JObj (map (\<lambda>f. (f_name f,
                  case map_of kvs (f_key f) of None \<Rightarrow> JNull
                  | Some raw \<Rightarrow> rename L (f_type f) raw))
               (model_fields L m))
      | _ \<Rightarrow> v)"
  by pat_completeness auto
termination
proof (relation "inv_image (less_than <*lex*> less_than) (\<lambda>(L, t, v). (size v, size t))")
  have below: "size raw < Suc (size_list (size_prod (\<lambda>x. 0) size) kvs)"
    if "map_of kvs k = Some raw" for kvs :: "(string \<times> json) list" and k raw
    using that by (induction kvs) (auto split: if_splits)
  fix L :: library and m :: model and v :: json and kvs f raw
  assume "v = JObj kvs" "f \<in> set (model_fields L m)" "map_of kvs (f_key f) = Some raw"
  then show "((L, f_type f, raw), (L, TModel m, v))
      \<in> inv_image (less_than <*lex*> less_than) (\<lambda>(L, t, v). (size v, size t))"
    using below [of kvs "f_key f" raw] by simp
next
  fix L :: library and ts :: "ty list" and v :: json and t
  assume "find (\<lambda>t. is_ok (validate L t v)) ts = Some t"
  then have "t \<in> set ts" by (auto simp: find_Some_iff)
  then show "((L, t, v), (L, TUnion ts, v))
      \<in> inv_image (less_than <*lex*> less_than) (\<lambda>(L, t, v). (size v, size t))"
    by (auto simp: less_Suc_eq_le size_list_estimation')
qed (auto simp: less_Suc_eq_le size_list_estimation')


text \<open>
  Two trees are equivalent when they differ only in entries that are null on one side
  and null or absent on the other, and in the order of the entries of a dictionary.
\<close>

fun json_le :: "json \<Rightarrow> json \<Rightarrow> bool" where
  "json_le (JObj a) (JObj b) =
     (\<forall>(k, v) \<in> set a. v = JNull \<or> (case map_of b k of None \<Rightarrow> False | Some w \<Rightarrow> json_le v w))"
| "json_le (JList xs) (JList ys) = list_all2 json_le xs ys"
| "json_le x y = (x = y)"

definition tree_equiv :: "json \<Rightarrow> json \<Rightarrow> bool" where
  "tree_equiv a b = (json_le a b \<and> json_le b a)"

text \<open>A validator function that returns the value it was given whenever it returns.\<close>

definition keeps :: "('a \<Rightarrow> 'a outcome) \<Rightarrow> bool" where
  "keeps g = (\<forall>x y. g x = Returns y \<longrightarrow> y = x)"

section \<open>Sample inputs\<close>

text \<open>
  An instance of the library parameters for the examples: it reads three strings as
  integers, parses two strings as dates, knows two strings as countries and has the
  hash seed 0.
\<close>

definition sample_library :: library where
  "sample_library =
     \<lparr>str_as_int = (\<lambda>s. if s = ''0'' then Some 0 else if s = ''1'' then Some 1
                         else if s = ''150'' then Some 150 else None),
      fromisoformat = (\<lambda>s. s = ''2019-01-15'' \<or> s = ''2019-01-15T18:46:36-06:00''),
      countries_lookup = (\<lambda>s. s = ''CA'' \<or> s = ''Canada''),
      hash_seed = 0\<rparr>"

text \<open>The example tree of the specification.\<close>

definition example_tree :: json where
  "example_tree =
     JObj [(''adf'', JObj [(''prospect'', JObj
       [(''vehicle'', JObj [(''year'', JStr ''2023''), (''make'', JStr ''Hyundai''),
          (''model'', JStr ''i30'')]),
        (''customer'', JObj [(''contact'', JObj [(''name'', JStr ''John B'')])])])])]"

section \<open>Basic facts\<close>

lemma gathered_Nil: "\<not> failed rs \<Longrightarrow> gathered rs = []"
  by (induction rs rule: failed.induct) auto

lemma collect_spec:
  "collect rs =
     (case raised rs of Some e \<Rightarrow> Raised e
      | None \<Rightarrow> if failed rs then Invalid (gathered rs) else Ok (accepted rs))"
proof (induction rs rule: collect.induct)
  case 1
  show ?case by simp
next
  case (2 l e rest)
  show ?case by simp
next
  case (3 l v rest)
  then show ?case by (simp split: option.splits)
next
  case (4 l es rest)
  then show ?case by (simp add: gathered_Nil split: option.splits)
qed

lemma validate_model:
  "validate L (TModel m) (JObj kvs) =
     model_result L m (model_fields L m) (collect (field_results L m kvs))"
  by (simp add: field_results_def validate_field_def)

declare validate.simps(7) [simp del]

declare trace.simps(7) [simp del]

declare rename.simps(7) [simp del]

declare model_fields.simps [simp del]

lemma failed_iff: "failed rs \<longleftrightarrow> (\<exists>l es. (l, Invalid es) \<in> set rs)"
  by (induction rs rule: failed.induct) auto

lemma collect_Ok: "collect rs = Ok vs \<Longrightarrow> \<not> failed rs"
  by (simp add: collect_spec split: option.splits if_splits)

lemma collect_Ok_all: "collect rs = Ok vs \<Longrightarrow> (l, r) \<in> set rs \<Longrightarrow> \<exists>v. r = Ok v"
proof (induction rs arbitrary: vs rule: collect.induct)
  case (3 l' v rest)
  then show ?case by (auto split: result.splits)
next
  case (4 l' es rest)
  then show ?case by (auto split: result.splits)
qed auto

lemma collect_Invalid_all:
  "collect rs = Invalid es \<Longrightarrow> (l, r) \<in> set rs \<Longrightarrow>
     (\<exists>v. r = Ok v) \<or> (\<exists>es1. r = Invalid es1 \<and> outer l ` set es1 \<subseteq> set es)"
proof (induction rs arbitrary: es rule: collect.induct)
  case (3 l' v rest)
  then show ?case by (auto split: result.splits)
next
  case (4 l' es' rest)
  show ?case
  proof (cases "(l, r) = (l', Invalid es')")
    case True
    with 4(2) show ?thesis by (auto split: result.splits)
  next
    case False
    with 4(3) have mem: "(l, r) \<in> set rest" by auto
    show ?thesis
    proof (cases "collect rest")
      case (Ok vs)
      from collect_Ok_all [OF this mem] show ?thesis by simp
    next
      case (Invalid es2)
      with 4(2) have es: "es = map (outer l') es' @ es2" by simp
      from 4(1) [OF Invalid mem] show ?thesis unfolding es by (auto simp: image_subset_iff)
    next
      case (Raised e)
      with 4(2) show ?thesis by simp
    qed
  qed
qed auto

lemma union_result_Ok: "union_result rs acc = Ok x \<Longrightarrow> \<exists>l. (l, Ok x) \<in> set rs"
  by (induction rs acc rule: union_result.induct) auto

lemma union_result_Invalid:
  "union_result rs acc = Invalid es \<Longrightarrow> (l, r) \<in> set rs \<Longrightarrow>
     \<exists>es1. r = Invalid es1 \<and> outer (Key l) ` set es1 \<subseteq> set es"
proof -
  have acc: "union_result rs acc = Invalid es \<Longrightarrow> set acc \<subseteq> set es" for rs acc
    by (induction rs acc rule: union_result.induct) auto
  show "union_result rs acc = Invalid es \<Longrightarrow> (l, r) \<in> set rs \<Longrightarrow>
     \<exists>es1. r = Invalid es1 \<and> outer (Key l) ` set es1 \<subseteq> set es"
  proof (induction rs acc rule: union_result.induct)
    case (4 label es' rest errors)
    show ?case
    proof (cases "(l, r) = (label, Invalid es')")
      case True
      with acc [OF 4(2) [simplified]] show ?thesis by auto
    next
      case False
      with 4 show ?thesis by auto
    qed
  qed auto
qed

lemma after_validator_Ok: "after_validator g r = Ok y \<Longrightarrow> \<exists>x. r = Ok x"
  by (auto simp: after_validator_def split: option.splits result.splits outcome.splits)

lemma after_validator_Invalid:
  "after_validator g r = Invalid es \<Longrightarrow> (\<exists>x. r = Ok x) \<or> r = Invalid es"
  by (auto simp: after_validator_def split: option.splits result.splits outcome.splits)

lemma model_result_Ok: "model_result L m fs r = Ok v \<Longrightarrow> \<exists>vs. r = Ok vs"
  by (cases r) (auto simp: model_result_def)

lemma model_result_Invalid:
  "model_result L m fs r = Invalid es \<Longrightarrow> (\<exists>vs. r = Ok vs) \<or> r = Invalid es"
  by (cases r) (auto simp: model_result_def)

lemma list_result_Ok: "list_result r = Ok v \<Longrightarrow> \<exists>vs. r = Ok vs"
  by (cases r) (auto simp: list_result_def)

lemma list_result_Invalid: "list_result r = Invalid es \<Longrightarrow> r = Invalid es"
  by (cases r) (auto simp: list_result_def)

lemma item_in_zip:
  "i < length xs \<Longrightarrow> (Index i, f (xs ! i)) \<in> set (zip (map Index [0..<length xs]) (map f xs))"
  by (auto simp: set_zip intro!: exI [of _ i])

lemma find_field: "find (\<lambda>f. f_key f = k) fs = Some f \<Longrightarrow> f \<in> set fs \<and> f_key f = k"
  by (auto simp: find_Some_iff)

lemma field_in_results:
  "f \<in> set (model_fields L m) \<Longrightarrow> (Key (f_key f), validate_field L f kvs) \<in> set (field_results L m kvs)"
  by (force simp: field_results_def)

lemma filter_single:
  assumes "filter P xs = [t]"
  shows "t \<in> set xs \<and> P t \<and> (\<forall>u \<in> set xs. u \<noteq> t \<longrightarrow> \<not> P u)"
proof -
  have "set (filter P xs) = {t}" using assms by simp
  then have "{x \<in> set xs. P x} = {t}" by simp
  then show ?thesis by blast
qed

lemma field_rejects:
  assumes "f \<in> set (model_fields L m)" and "validate_field L f kvs = Invalid es"
  shows "validate L (TModel m) (JObj kvs) \<noteq> Ok v"
proof
  assume "validate L (TModel m) (JObj kvs) = Ok v"
  then obtain vs where "collect (field_results L m kvs) = Ok vs"
    unfolding validate_model by (auto dest: model_result_Ok)
  then have "\<not> failed (field_results L m kvs)" by (rule collect_Ok)
  moreover have "(Key (f_key f), Invalid es) \<in> set (field_results L m kvs)"
    using assms by (force simp: field_results_def)
  ultimately show False by (auto simp: failed_iff)
qed

lemma attr_rejects:
  assumes "validate_attr L m n kvs = Some (Invalid es)"
  shows "validate L (TModel m) (JObj kvs) \<noteq> Ok v"
proof -
  from assms obtain f where f: "field_named L m n = Some f" "validate_field L f kvs = Invalid es"
    by (auto simp: validate_attr_def)
  then have "f \<in> set (model_fields L m)"
    by (auto simp: field_named_def find_Some_iff)
  with f show ?thesis by (auto dest: field_rejects)
qed

lemma int_validator_reads: "reads_as L raw n \<Longrightarrow> int_validator L raw = Ok (VInt n)"
  by (auto simp: reads_as_def int_validator_def split: json.splits)

lemma reads_as_not_null: "reads_as L raw n \<Longrightarrow> raw \<noteq> JNull"
  by (auto simp: reads_as_def)

lemma kind_rejects: "\<not> kind_ok t v \<Longrightarrow> \<exists>es. validate L t v = Invalid es"
proof (induction L t v rule: validate.induct)
  case (6 L ts v)
  have "\<exists>es. union_result (map (\<lambda>t. (union_label t, validate L t v)) us) acc = Invalid es"
    if "set us \<subseteq> set ts" for us acc
    using that
  proof (induction us arbitrary: acc)
    case Nil
    show ?case by simp
  next
    case (Cons u us)
    then have "\<not> kind_ok u v" using 6(2) by auto
    with 6(1) Cons(2) obtain es where "validate L u v = Invalid es" by auto
    with Cons show ?case by simp
  qed
  then show ?case by simp
qed (auto simp: str_validator_def int_validator_def positive_int_validator_def validate.simps(7) split: json.splits)

lemma deep_reject:
  "reach L t v p = Some (t', v') \<Longrightarrow> \<forall>x. validate L t' v' \<noteq> Ok x \<Longrightarrow> validate L t v \<noteq> Ok y"
proof (induction L t v p arbitrary: y rule: reach.induct)
  case (1 L t v)
  then show ?case by simp
next
  case (2 L t v l p)
  then show ?case by (auto split: if_splits)
next
  case (3 L t xs i p)
  from 3(2) have i: "i < length xs" and r: "reach L t (xs ! i) p = Some (t', v')"
    by (auto split: if_splits)
  show ?case
  proof
    assume "validate L (TList t) (JList xs) = Ok y"
    then obtain vs where "collect (zip (map Index [0..<length xs]) (map (validate L t) xs)) = Ok vs"
      by (auto dest: list_result_Ok)
    from collect_Ok_all [OF this item_in_zip [OF i]] obtain x where "validate L t (xs ! i) = Ok x"
      by auto
    with 3(1) [OF i r 3(3)] show False by blast
  qed
next
  case (4 L ts v s p)
  from 4(2) obtain t where f: "filter (\<lambda>t. kind_ok t v) ts = [t]" and s: "union_label t = s"
    and r: "reach L t v p = Some (t', v')"
    by (auto split: list.splits if_splits)
  note single = filter_single [OF f]
  show ?case
  proof
    assume "validate L (TUnion ts) v = Ok y"
    then obtain l where "(l, Ok y) \<in> set (map (\<lambda>t. (union_label t, validate L t v)) ts)"
      by (auto dest: union_result_Ok)
    then obtain u where u: "u \<in> set ts" "validate L u v = Ok y" by auto
    show False
    proof (cases "u = t")
      case True
      with 4(1) [OF f refl s r 4(3)] u show False by blast
    next
      case False
      with single u have "\<not> kind_ok u v" by auto
      from kind_rejects [OF this, of L] u show False by auto
    qed
  qed
next
  case (5 L m kvs k p)
  from 5(2) obtain f raw where f: "find (\<lambda>f. f_key f = k) (model_fields L m) = Some f"
    and raw: "map_of kvs k = Some raw" and r: "reach L (f_type f) raw p = Some (t', v')"
    by (auto split: option.splits)
  from find_field [OF f] have fin: "f \<in> set (model_fields L m)" and fk: "f_key f = k" by auto
  show ?case
  proof
    assume "validate L (TModel m) (JObj kvs) = Ok y"
    then obtain vs where "collect (field_results L m kvs) = Ok vs"
      unfolding validate_model by (auto dest: model_result_Ok)
    from collect_Ok_all [OF this field_in_results [OF fin]] obtain x where "validate_field L f kvs = Ok x"
      by auto
    then obtain x' where "validate L (f_type f) raw = Ok x'"
      using raw fk by (auto simp: validate_field_def dest: after_validator_Ok)
    with 5(1) [OF f raw r 5(3)] show False by blast
  qed
qed simp_all

lemma under_Nil: "under [] e = e"
  by (simp add: under_def)

lemma under_Cons: "under (l # p) e = outer l (under p e)"
  by (simp add: under_def outer_def)

lemma deep_errors:
  "reach L t v p = Some (t', v') \<Longrightarrow> validate L t' v' = Invalid es' \<Longrightarrow>
   validate L t v = Invalid es \<Longrightarrow> e \<in> set es' \<Longrightarrow> under p e \<in> set es"
proof (induction L t v p arbitrary: es rule: reach.induct)
  case (1 L t v)
  then show ?case by (simp add: under_Nil)
next
  case (2 L t v l p)
  then show ?case by (auto split: if_splits)
next
  case (3 L t xs i p)
  from 3(2) have i: "i < length xs" and r: "reach L t (xs ! i) p = Some (t', v')"
    by (auto split: if_splits)
  from 3(3) have no: "\<forall>x. validate L t' v' \<noteq> Ok x" by simp
  from 3(4) have "collect (zip (map Index [0..<length xs]) (map (validate L t) xs)) = Invalid es"
    by (auto dest: list_result_Invalid)
  from collect_Invalid_all [OF this item_in_zip [OF i]] deep_reject [OF r no]
  obtain es1 where es1: "validate L t (xs ! i) = Invalid es1" "outer (Index i) ` set es1 \<subseteq> set es"
    by blast
  from 3(1) [OF i r 3(3) es1(1) 3(5)] es1(2) show ?case
    by (auto simp: under_Cons)
next
  case (4 L ts v s p)
  from 4(2) obtain t where f: "filter (\<lambda>t. kind_ok t v) ts = [t]" and s: "union_label t = s"
    and r: "reach L t v p = Some (t', v')"
    by (auto split: list.splits if_splits)
  from filter_single [OF f] have "(union_label t, validate L t v) \<in> set (map (\<lambda>t. (union_label t, validate L t v)) ts)"
    by auto
  from union_result_Invalid [OF 4(4) [simplified] this]
  obtain es1 where es1: "validate L t v = Invalid es1" "outer (Key (union_label t)) ` set es1 \<subseteq> set es"
    by blast
  from 4(1) [OF f refl s r 4(3) es1(1) 4(5)] es1(2) s show ?case
    by (auto simp: under_Cons)
next
  case (5 L m kvs k p)
  from 5(2) obtain f raw where f: "find (\<lambda>f. f_key f = k) (model_fields L m) = Some f"
    and raw: "map_of kvs k = Some raw" and r: "reach L (f_type f) raw p = Some (t', v')"
    by (auto split: option.splits)
  from find_field [OF f] have fin: "f \<in> set (model_fields L m)" and fk: "f_key f = k" by auto
  from 5(3) have no: "\<forall>x. validate L t' v' \<noteq> Ok x" by simp
  note inner = deep_reject [OF r no]
  have vf: "validate_field L f kvs = after_validator (f_validator f) (validate L (f_type f) raw)"
    using raw fk by (simp add: validate_field_def)
  have notok: "validate_field L f kvs \<noteq> Ok x" for x
    using inner unfolding vf by (auto dest: after_validator_Ok)
  have notall: "collect (field_results L m kvs) \<noteq> Ok vs" for vs
  proof
    assume "collect (field_results L m kvs) = Ok vs"
    from collect_Ok_all [OF this field_in_results [OF fin]] notok show False by blast
  qed
  from 5(4) have "(\<exists>vs. collect (field_results L m kvs) = Ok vs) \<or> collect (field_results L m kvs) = Invalid es"
    unfolding validate_model by (rule model_result_Invalid)
  with notall have "collect (field_results L m kvs) = Invalid es" by blast
  from collect_Invalid_all [OF this field_in_results [OF fin]] notok
  obtain es1 where es1: "validate_field L f kvs = Invalid es1" "outer (Key (f_key f)) ` set es1 \<subseteq> set es"
    by blast
  from es1(1) have "validate L (f_type f) raw = Invalid es1"
    unfolding vf using inner by (auto dest: after_validator_Invalid)
  from 5(1) [OF f raw r 5(3) this 5(5)] es1(2) fk show ?case
    by (auto simp: under_Cons)
qed simp_all

lemma well_formed_outer: "well_formed (outer l e) = well_formed e"
  by (simp add: well_formed_def outer_def)

lemma well_formed_value_error: "well_formed (value_error m)"
  by (simp add: well_formed_def value_error_def)

lemma collect_Invalid_from:
  "collect rs = Invalid es \<Longrightarrow> e \<in> set es \<Longrightarrow>
     \<exists>l es1 e1. (l, Invalid es1) \<in> set rs \<and> e1 \<in> set es1 \<and> e = outer l e1"
proof (induction rs arbitrary: es rule: collect.induct)
  case (3 l' v rest)
  from 3(2) have "collect rest = Invalid es" by (simp split: result.splits)
  from 3(1) [OF this 3(3)] show ?case by auto
next
  case (4 l' es' rest)
  show ?case
  proof (cases "collect rest")
    case (Ok vs)
    with 4(2) 4(3) have "e \<in> outer l' ` set es'" by auto
    then show ?thesis by auto
  next
    case (Invalid es2)
    with 4(2) 4(3) consider "e \<in> outer l' ` set es'" | "e \<in> set es2" by auto
    then show ?thesis
    proof cases
      case 1
      then show ?thesis by auto
    next
      case 2
      from 4(1) [OF Invalid 2] show ?thesis by auto
    qed
  next
    case (Raised x)
    with 4(2) show ?thesis by simp
  qed
qed auto

lemma union_result_Invalid_from:
  "union_result rs acc = Invalid es \<Longrightarrow> e \<in> set es \<Longrightarrow>
     e \<in> set acc \<or> (\<exists>l es1 e1. (l, Invalid es1) \<in> set rs \<and> e1 \<in> set es1 \<and> e = outer (Key l) e1)"
proof (induction rs acc rule: union_result.induct)
  case (4 label es' rest errors)
  from 4(1) [OF 4(2) [simplified] 4(3)] show ?case by auto
qed auto

lemma validate_well_formed:
  "validate L t v = Invalid es \<Longrightarrow> e \<in> set es \<Longrightarrow> well_formed e"
proof (induction L t v arbitrary: es e rule: validate.induct)
  case (1 L v)
  then show ?case by (auto simp: str_validator_def well_formed_def split: json.splits)
next
  case (2 L v)
  then show ?case by (auto simp: int_validator_def well_formed_def split: json.splits option.splits)
next
  case (3 L v)
  then show ?case
    by (auto simp: positive_int_validator_def int_validator_def well_formed_def
        split: json.splits option.splits result.splits pyval.splits if_splits)
next
  case (4 L t v)
  then show ?case by (auto split: if_splits)
next
  case (5 L t v)
  show ?case
  proof (cases v)
    case (JList xs)
    with 5(2) have "collect (zip (map Index [0..<length xs]) (map (validate L t) xs)) = Invalid es"
      by (auto dest: list_result_Invalid)
    from collect_Invalid_from [OF this 5(3)] obtain l es1 e1 where
      m: "(l, Invalid es1) \<in> set (zip (map Index [0..<length xs]) (map (validate L t) xs))"
      and e1: "e1 \<in> set es1" "e = outer l e1" by blast
    from m obtain x where "x \<in> set xs" "validate L t x = Invalid es1"
      by (auto simp: set_zip) (metis nth_mem)
    with 5(1) [OF JList this(1) this(2) e1(1)] e1(2) show ?thesis
      by (simp add: well_formed_outer)
  qed (use 5 in \<open>auto simp: well_formed_def\<close>)
next
  case (6 L ts v)
  from union_result_Invalid_from [OF 6(2) [simplified] 6(3)] obtain l es1 e1 where
    m: "(l, Invalid es1) \<in> set (map (\<lambda>t. (union_label t, validate L t v)) ts)"
    and e1: "e1 \<in> set es1" "e = outer (Key l) e1" by auto
  from m obtain t where "t \<in> set ts" "validate L t v = Invalid es1" by auto
  with 6(1) [OF this(1) this(2) e1(1)] e1(2) show ?case
    by (simp add: well_formed_outer)
next
  case (7 L m v)
  show ?case
  proof (cases v)
    case (JObj kvs)
    with 7(2) have mr: "model_result L m (model_fields L m) (collect (field_results L m kvs)) = Invalid es"
      by (simp add: validate_model)
    show ?thesis
    proof (cases "collect (field_results L m kvs)")
      case (Ok vs)
      with mr 7(3) show ?thesis
        by (auto simp: model_result_def well_formed_value_error split: option.splits outcome.splits)
    next
      case (Invalid es0)
      with mr have c: "collect (field_results L m kvs) = Invalid es" by (simp add: model_result_def)
      from collect_Invalid_from [OF c 7(3)] obtain l es1 e1 where
        m: "(l, Invalid es1) \<in> set (field_results L m kvs)"
        and e1: "e1 \<in> set es1" "e = outer l e1" by blast
      from m obtain f where f: "f \<in> set (model_fields L m)" "validate_field L f kvs = Invalid es1"
        by (auto simp: field_results_def)
      have "well_formed e1"
      proof (cases "map_of kvs (f_key f)")
        case None
        with f(2) e1(1) show ?thesis
          by (auto simp: validate_field_def absent_def well_formed_def split: option.splits)
      next
        case (Some raw)
        with f(2) have av: "after_validator (f_validator f) (validate L (f_type f) raw) = Invalid es1"
          by (simp add: validate_field_def)
        show ?thesis
        proof (cases "validate L (f_type f) raw")
          case (Ok x)
          with av e1(1) show ?thesis
            by (auto simp: after_validator_def well_formed_value_error split: option.splits outcome.splits)
        next
          case (Invalid es2)
          with av have "es2 = es1" by (auto simp: after_validator_def split: option.splits)
          with 7(1) [OF JObj f(1) Some Invalid] e1(1) show ?thesis by simp
        next
          case (Raised x)
          with av show ?thesis by (auto simp: after_validator_def split: option.splits)
        qed
      qed
      with e1(2) show ?thesis by (simp add: well_formed_outer)
    next
      case (Raised x)
      with mr show ?thesis by (simp add: model_result_def)
    qed
  qed (use 7 in \<open>auto simp: well_formed_def validate.simps(7)\<close>)
qed

text \<open>The equations that evaluate a concrete document.\<close>

lemmas validators =
  Odometer_validate_status_def Odometer_validate_units_def
  ColorCombination_validate_preference_def Price_validate_type_def
  Price_validate_currency_def Price_validate_delta_def Price_validate_relativeto_def
  Option_validate_weighting_def Amount_validate_type_def Amount_validate_limit_def
  Amount_validate_currency_def Balance_validate_type_def Balance_validate_currency_def
  Finance_validate_method_def Vehicle_validate_interest_def Vehicle_validate_status_def
  Vehicle_validate_conditon_def Name_validate_part_def Name_validate_type_def
  Phone_validate_type_def Phone_validate_time_def Street_validate_line_def
  Address_validate_type_def Address_validate_country_def
  TimeFrame_validate_earliest_date_def TimeFrame_validate_latest_date_def
  Contact_check_required_fields_def
  Customer_check_required_fields_def Vendor_check_required_fields_def
  Provider_check_required_fields_def TimeFrame_validate_dates_def
  required_check_def not_in_raise_def is_valid_currency_code_def is_iso8601_def
  is_valid_iso_3166_alpha_2_def py_less_def py_ge_def py_le_def upper_def

lemmas engine =
  validate.simps(7) model_fields.simps str_validator_def int_validator_def positive_int_validator_def
  outer_def value_error_def after_validator_def f_key_def absent_def model_result_def
  list_result_def optional_def required_def

lemmas script = main_def try_block_def Lead_init_def on_validation_error_def error_messages_def
  trace.simps(7) validate_field_def field_results_def

lemma keeps_not_in_raise: "keeps (\<lambda>val. not_in_raise val allowed m)"
  by (auto simp: keeps_def not_in_raise_def split: if_splits)

lemma keeps_field_validators:
  "keeps Odometer_validate_status" "keeps Odometer_validate_units"
  "keeps ColorCombination_validate_preference" "keeps Price_validate_type"
  "keeps Price_validate_currency" "keeps Price_validate_delta" "keeps Price_validate_relativeto"
  "keeps Option_validate_weighting" "keeps Amount_validate_type" "keeps Amount_validate_limit"
  "keeps Amount_validate_currency" "keeps Balance_validate_type"
  "keeps Balance_validate_currency" "keeps Finance_validate_method"
  "keeps Vehicle_validate_interest" "keeps Vehicle_validate_status"
  "keeps Vehicle_validate_conditon" "keeps Name_validate_part" "keeps Name_validate_type"
  "keeps Phone_validate_type" "keeps Phone_validate_time" "keeps Street_validate_line"
  "keeps Address_validate_type" "keeps (Address_validate_country L)"
  "keeps (TimeFrame_validate_earliest_date L)" "keeps (TimeFrame_validate_latest_date L)"
  unfolding keeps_def validators
  by (auto split: if_splits sum.splits bool.splits)

lemma set_set_iteration: "set (set_iteration seed xs) = set xs"
  by (simp add: set_iteration_def)

lemma none_empty:
  "\<forall>f \<in> set xs. (case map_of inst f of Some v \<Rightarrow> v \<noteq> VNone | None \<Rightarrow> False) \<Longrightarrow>
     empty_required_fields xs inst = Inr []"
  by (induction xs) (auto split: option.splits)

text \<open>
  With \<open>year\<close>, \<open>make\<close> and \<open>model\<close> set, \<open>check_required_fields\<close> of \<open>Vehicle\<close> returns
  the instance, whatever the order in which it reads the three names.
\<close>

lemma Vehicle_check_returns:
  "(case map_of inst ''year'' of Some v \<Rightarrow> v \<noteq> VNone | None \<Rightarrow> False) \<Longrightarrow>
   (case map_of inst ''make'' of Some v \<Rightarrow> v \<noteq> VNone | None \<Rightarrow> False) \<Longrightarrow>
   (case map_of inst ''model'' of Some v \<Rightarrow> v \<noteq> VNone | None \<Rightarrow> False) \<Longrightarrow>
   Vehicle_check_required_fields L inst = Returns inst"
  by (simp add: Vehicle_check_required_fields_def required_check_def none_empty
      set_set_iteration)

lemmas seeded = Vehicle_check_required_fields_def set_iteration_def

lemma keeps_model_validators:
  "keeps (Vehicle_check_required_fields L)" "keeps Contact_check_required_fields"
  "keeps Customer_check_required_fields" "keeps Vendor_check_required_fields"
  "keeps Provider_check_required_fields" "keeps TimeFrame_validate_dates"
  unfolding keeps_def validators Vehicle_check_required_fields_def
  by (auto split: if_splits sum.splits option.splits)

lemma model_validator_keeps: "model_validator L m = Some g \<Longrightarrow> keeps g"
  by (cases m) (auto simp: keeps_model_validators)

lemma field_validator_keeps:
  "f \<in> set (model_fields L m) \<Longrightarrow> f_validator f = Some g \<Longrightarrow> keeps g"
  by (cases m) (auto simp: model_fields.simps optional_def required_def keeps_field_validators)

lemma field_default_None:
  "f \<in> set (model_fields L m) \<Longrightarrow> f_default f = Some d \<Longrightarrow> d = VNone"
  by (cases m) (auto simp: model_fields.simps optional_def required_def)

lemma collect_Ok_map: "collect rs = Ok vs \<Longrightarrow> map snd rs = map Ok vs"
proof (induction rs arbitrary: vs rule: collect.induct)
  case (3 l v rest)
  then show ?case by (auto split: result.splits)
next
  case (4 l es rest)
  then show ?case by (auto split: result.splits)
qed auto

lemma union_first:
  "union_result (map (\<lambda>t. (lab t, F t)) ts) acc = Ok x \<Longrightarrow>
     \<exists>t. find (\<lambda>t. is_ok (F t)) ts = Some t \<and> F t = Ok x"
proof (induction ts arbitrary: acc)
  case Nil
  then show ?case by simp
next
  case (Cons a ts)
  then show ?case by (cases "F a") auto
qed

lemma map_Ok_items:
  "map F xs = map Ok vs \<Longrightarrow> (\<And>x y. x \<in> set xs \<Longrightarrow> F x = Ok y \<Longrightarrow> D y = R x) \<Longrightarrow>
     map D vs = map R xs"
proof (induction xs arbitrary: vs)
  case Nil
  then show ?case by simp
next
  case (Cons a xs)
  then obtain w ws where "vs = w # ws" by (cases vs) auto
  with Cons show ?case by auto
qed

lemma map_Ok_fields:
  "map F fs = map Ok vs \<Longrightarrow> (\<And>f y. f \<in> set fs \<Longrightarrow> F f = Ok y \<Longrightarrow> D y = R f) \<Longrightarrow>
     map (\<lambda>(k, v). (k, D v)) (zip (map N fs) vs) = map (\<lambda>f. (N f, R f)) fs"
proof (induction fs arbitrary: vs)
  case Nil
  then show ?case by simp
next
  case (Cons a fs)
  then obtain w ws where "vs = w # ws" by (cases vs) auto
  with Cons show ?case by auto
qed

lemma model_result_value:
  assumes "model_result L m fs (Ok vs) = Ok x"
  shows "x = VModel m (zip (map f_name fs) vs)"
proof (cases "model_validator L m")
  case None
  with assms show ?thesis by (simp add: model_result_def)
next
  case (Some g)
  from model_validator_keeps [OF this] assms Some show ?thesis
    by (auto simp: model_result_def keeps_def split: outcome.splits)
qed

lemma dump_rename:
  "validate L t v = Ok x \<Longrightarrow> model_dump x = rename L t v"
proof (induction L t v arbitrary: x rule: validate.induct)
  case (1 L v)
  then show ?case by (auto simp: str_validator_def split: json.splits)
next
  case (2 L v)
  then show ?case by simp
next
  case (3 L v)
  then show ?case
    by (auto simp: positive_int_validator_def split: result.splits pyval.splits if_splits)
next
  case (4 L t v)
  then show ?case by (auto split: if_splits)
next
  case (5 L t v)
  show ?case
  proof (cases v)
    case (JList xs)
    with 5(2) obtain vs where c: "collect (zip (map Index [0..<length xs]) (map (validate L t) xs)) = Ok vs"
      and x: "x = VList vs"
      by (auto simp: list_result_def split: result.splits)
    from collect_Ok_map [OF c] have "map (validate L t) xs = map Ok vs" by simp
    from map_Ok_items [OF this, of model_dump "rename L t"] 5(1) [OF JList]
    have "map model_dump vs = map (rename L t) xs" by blast
    with x JList show ?thesis by simp
  qed (use 5(2) in auto)
next
  case (6 L ts v)
  from union_first [OF 6(2) [simplified]] obtain t where
    t: "find (\<lambda>t. is_ok (validate L t v)) ts = Some t" "validate L t v = Ok x" by blast
  then have "t \<in> set ts" by (auto simp: find_Some_iff)
  from 6(1) [OF this t(2)] t(1) show ?case by simp
next
  case (7 L m v)
  show ?case
  proof (cases v)
    case (JObj kvs)
    with 7(2) have mr: "model_result L m (model_fields L m) (collect (field_results L m kvs)) = Ok x"
      by (simp add: validate_model)
    then obtain vs where c: "collect (field_results L m kvs) = Ok vs"
      by (auto dest: model_result_Ok)
    with mr have x: "x = VModel m (zip (map f_name (model_fields L m)) vs)"
      by (auto dest: model_result_value)
    from collect_Ok_map [OF c]
    have m: "map (\<lambda>f. validate_field L f kvs) (model_fields L m) = map Ok vs"
      by (simp add: field_results_def comp_def)
    have each: "model_dump y =
        (case map_of kvs (f_key f) of None \<Rightarrow> JNull | Some raw \<Rightarrow> rename L (f_type f) raw)"
      if f: "f \<in> set (model_fields L m)" and y: "validate_field L f kvs = Ok y" for f y
    proof (cases "map_of kvs (f_key f)")
      case None
      with y have "f_default f = Some y"
        by (auto simp: validate_field_def absent_def split: option.splits)
      from field_default_None [OF f this] None show ?thesis by simp
    next
      case (Some raw)
      with y have av: "after_validator (f_validator f) (validate L (f_type f) raw) = Ok y"
        by (simp add: validate_field_def)
      then obtain y' where y': "validate L (f_type f) raw = Ok y'"
        by (auto dest: after_validator_Ok)
      have "y = y'"
      proof (cases "f_validator f")
        case None
        with av y' show ?thesis by (simp add: after_validator_def)
      next
        case (Some g)
        from field_validator_keeps [OF f this] av y' Some show ?thesis
          by (auto simp: after_validator_def keeps_def split: outcome.splits)
      qed
      with 7(1) [OF JObj f Some y'] Some show ?thesis by simp
    qed
    have "map (\<lambda>(k, v). (k, model_dump v)) (zip (map f_name (model_fields L m)) vs)
        = map (\<lambda>f. (f_name f, case map_of kvs (f_key f) of None \<Rightarrow> JNull
                              | Some raw \<Rightarrow> rename L (f_type f) raw)) (model_fields L m)"
      by (rule map_Ok_fields [OF m]) (rule each)
    with x JObj show ?thesis by (simp add: rename.simps(7))
  qed (use 7(2) in \<open>auto simp: validate.simps(7)\<close>)
qed

lemma weighting_attr:
  "map_of kvs ''weighting'' = Some raw \<Longrightarrow> reads_as L raw n \<Longrightarrow>
   validate_attr L Option_cls ''weighting'' kvs =
     Some (if - 100 < n \<and> n < 100 then Ok (VInt n)
           else Invalid [value_error ''Invalid Weighting input''])"
  by (auto simp: validate_attr_def field_named_def model_fields.simps optional_def validate_field_def f_key_def
      after_validator_def Option_validate_weighting_def py_ge_def py_le_def
      int_validator_reads reads_as_not_null)

lemma sequence_attr:
  "map_of kvs ''@sequence'' = Some raw \<Longrightarrow> reads_as L raw n \<Longrightarrow>
   validate_attr L Id_cls ''sequence'' kvs =
     Some (if 0 < n then Ok (VInt n)
           else Invalid [LineError [] ''greater_than'' ''Input should be greater than 0''])"
  by (auto simp: validate_attr_def field_named_def model_fields.simps optional_def validate_field_def f_key_def
      after_validator_def positive_int_validator_def
      int_validator_reads reads_as_not_null)

lemma sequence_absent:
  "map_of kvs ''@sequence'' = None \<or> map_of kvs ''@sequence'' = Some JNull \<Longrightarrow>
   validate_attr L Id_cls ''sequence'' kvs = Some (Ok VNone)"
  by (auto simp: validate_attr_def field_named_def model_fields.simps optional_def validate_field_def f_key_def
      after_validator_def absent_def)

lemma attr_simps:
  "validate_attr L m n kvs = map_option (\<lambda>f. validate_field L f kvs) (find (\<lambda>f. f_name f = n) (model_fields L m))"
  by (simp add: validate_attr_def field_named_def model_fields.simps)

lemma earliest_attr:
  "validate_attr L TimeFrame ''earliest_date'' kvs =
     Some (case map_of kvs ''earliest_date'' of
             None \<Rightarrow> Ok VNone
           | Some JNull \<Rightarrow> Raised TypeError
           | Some (JStr s) \<Rightarrow>
               if fromisoformat L s then Ok (VStr s)
               else Invalid [value_error ''Invalid Earliest Date input'']
           | Some _ \<Rightarrow> Invalid [LineError [] ''string_type'' ''Input should be a valid string''])"
  by (simp add: attr_simps validate_field_def engine validators split: option.splits json.splits)

lemma latest_attr:
  "validate_attr L TimeFrame ''latest_date'' kvs =
     Some (case map_of kvs ''latest_date'' of
             None \<Rightarrow> Ok VNone
           | Some JNull \<Rightarrow> Raised TypeError
           | Some (JStr s) \<Rightarrow>
               if fromisoformat L s then Ok (VStr s)
               else Invalid [value_error ''Invalid Latest Date input'']
           | Some _ \<Rightarrow> Invalid [LineError [] ''string_type'' ''Input should be a valid string''])"
  by (simp add: attr_simps validate_field_def engine validators split: option.splits json.splits)

lemma description_attr:
  "validate_attr L TimeFrame ''description'' kvs =
     Some (case map_of kvs ''description'' of
             None \<Rightarrow> Ok VNone
           | Some JNull \<Rightarrow> Ok VNone
           | Some (JStr s) \<Rightarrow> Ok (VStr s)
           | Some _ \<Rightarrow> Invalid [LineError [] ''string_type'' ''Input should be a valid string''])"
  by (simp add: attr_simps validate_field_def engine validators split: option.splits json.splits)

lemmas attr_eval = validate_attr_def field_named_def validate_field_def

lemma example_validates:
  "Lead_init L example_tree = Ok (VModel Lead
     [(''adf'',
       VModel ADF
        [(''prospect'',
          VModel Prospect
           [(''status'', VNone), (''id'', VNone), (''request_date'', VNone),
            (''vehicle'',
             VModel Vehicle
              [(''interest'', VNone), (''status'', VNone), (''id'', VNone),
               (''year'', VStr ''2023''), (''make'', VStr ''Hyundai''),
               (''model'', VStr ''i30''), (''vin'', VNone),
               (''stock'', VNone), (''trim'', VNone), (''doors'', VNone),
               (''bodystyle'', VNone), (''odometer'', VNone),
               (''condition'', VNone), (''color_combination'', VNone),
               (''imagetag'', VNone), (''price'', VNone),
               (''price_comments'', VNone), (''option'', VNone),
               (''finance'', VNone), (''comments'', VNone)]),
            (''customer'',
             VModel Customer
              [(''contact'',
                VModel Contact
                 [(''primary_contact'', VNone), (''name'', VStr ''John B''),
                  (''email'', VNone), (''phone'', VNone),
                  (''address'', VNone)]),
               (''id'', VNone), (''timeframe'', VNone),
               (''comments'', VNone)]),
            (''vendor'', VNone), (''provider'', VNone)])])])"
  by (simp add: example_tree_def script engine validators Vehicle_check_returns)

section \<open>The range of \<open>weighting\<close>\<close>

text \<open>
  Claim C8. The only \<open>weighting\<close> field is that of \<open>Option\<close>. A raw value that reads as
  an integer strictly between -100 and 100 is accepted for the field, as that integer. One
  that reads as an integer at or beyond either bound (100, -100, 150) is rejected with the
  error of \<open>validate_weighting\<close>, and the record that holds it does not validate.
\<close>

theorem weighting_range:
  assumes "map_of kvs ''weighting'' = Some raw" and "reads_as L raw n"
  shows "(- 100 < n \<and> n < 100 \<longrightarrow>
            validate_attr L Option_cls ''weighting'' kvs = Some (Ok (VInt n))) \<and>
         (n \<ge> 100 \<or> n \<le> - 100 \<longrightarrow>
            validate_attr L Option_cls ''weighting'' kvs =
              Some (Invalid [value_error ''Invalid Weighting input'']) \<and>
            (\<forall>v. validate L (TModel Option_cls) (JObj kvs) \<noteq> Ok v))"
  using weighting_attr [OF assms] by (auto dest: attr_rejects)

theorem weighting_range_witness:
  "validate_attr sample_library Option_cls ''weighting'' [(''weighting'', JInt 99)]
     = Some (Ok (VInt 99)) \<and>
   validate_attr sample_library Option_cls ''weighting'' [(''weighting'', JInt (- 100))]
     = Some (Invalid [value_error ''Invalid Weighting input'']) \<and>
   validate_attr sample_library Option_cls ''weighting'' [(''weighting'', JStr ''150'')]
     = Some (Invalid [value_error ''Invalid Weighting input'']) \<and>
   (\<forall>v. validate sample_library (TModel Option_cls) (JObj [(''weighting'', JStr ''150'')])
      \<noteq> Ok v)"
  using weighting_range [of "[(''weighting'', JInt 99)]" "JInt 99" sample_library 99]
    weighting_range [of "[(''weighting'', JInt (- 100))]" "JInt (- 100)" sample_library "- 100"]
    weighting_range [of "[(''weighting'', JStr ''150'')]" "JStr ''150''" sample_library 150]
  by (simp add: reads_as_def sample_library_def)

section \<open>The sequence number of an \<open>Id\<close>\<close>

text \<open>
  Claim C10. The field \<open>sequence\<close> of \<open>Id\<close> is read under the key \<open>@sequence\<close>. A raw
  value that reads as a strictly positive integer is accepted; one that reads as zero or
  a negative integer is rejected and the record does not validate; a key that is absent
  or null gives \<open>None\<close>.
\<close>

theorem id_sequence_positive:
  "(map_of kvs ''@sequence'' = Some raw \<and> reads_as L raw n \<and> 0 < n \<longrightarrow>
      validate_attr L Id_cls ''sequence'' kvs = Some (Ok (VInt n))) \<and>
   (map_of kvs ''@sequence'' = Some raw \<and> reads_as L raw n \<and> n \<le> 0 \<longrightarrow>
      validate_attr L Id_cls ''sequence'' kvs =
        Some (Invalid [LineError [] ''greater_than'' ''Input should be greater than 0'']) \<and>
      (\<forall>v. validate L (TModel Id_cls) (JObj kvs) \<noteq> Ok v)) \<and>
   (map_of kvs ''@sequence'' = None \<or> map_of kvs ''@sequence'' = Some JNull \<longrightarrow>
      validate_attr L Id_cls ''sequence'' kvs = Some (Ok VNone))"
  using sequence_attr [of kvs raw L n] sequence_absent [of kvs L]
  by (auto dest: attr_rejects)

theorem id_sequence_positive_witness:
  "validate_attr sample_library Id_cls ''sequence'' [(''@sequence'', JStr ''1'')]
     = Some (Ok (VInt 1)) \<and>
   validate_attr sample_library Id_cls ''sequence'' [(''@sequence'', JInt 0)]
     = Some (Invalid [LineError [] ''greater_than'' ''Input should be greater than 0'']) \<and>
   (\<forall>v. validate sample_library (TModel Id_cls) (JObj [(''@sequence'', JInt 0)]) \<noteq> Ok v) \<and>
   validate_attr sample_library Id_cls ''sequence'' [(''@source'', JStr ''ABC'')]
     = Some (Ok VNone)"
  using id_sequence_positive [of "[(''@sequence'', JStr ''1'')]" "JStr ''1''" sample_library 1]
    id_sequence_positive [of "[(''@sequence'', JInt 0)]" "JInt 0" sample_library 0]
    id_sequence_positive [of "[(''@source'', JStr ''ABC'')]" JNull sample_library 0]
  by (simp add: reads_as_def sample_library_def)

section \<open>The dates of a \<open>TimeFrame\<close>\<close>

text \<open>
  Claim C6 at its failing inputs. With both keys absent the record is rejected with the
  error of \<open>validate_dates\<close>, and with one valid date and the other key absent it is
  accepted. With both dates null, or with one valid date and the other null, the date
  validator receives \<open>None\<close> and \<open>fromisoformat\<close> raises \<open>TypeError\<close>: \<open>validate_dates\<close>
  never runs, no violation is reported, and the script ends with the handler of
  \<open>Exception\<close>.
\<close>

theorem timeframe_null_dates_raise:
  "validate sample_library (TModel TimeFrame) (JObj []) = Invalid [either_or_error] \<and>
   validate sample_library (TModel TimeFrame) (JObj [(''earliest_date'', JStr ''2019-01-15'')])
     = Ok (VModel TimeFrame [(''description'', VNone),
         (''earliest_date'', VStr ''2019-01-15''), (''latest_date'', VNone)]) \<and>
   validate sample_library (TModel TimeFrame)
       (JObj [(''earliest_date'', JNull), (''latest_date'', JNull)])
     = Raised TypeError \<and>
   validate sample_library (TModel TimeFrame)
       (JObj [(''earliest_date'', JStr ''2019-01-15''), (''latest_date'', JNull)])
     = Raised TypeError \<and>
   main sample_library (Imported []) (Data (JObj [(''adf'', JObj [(''prospect'', JObj
       [(''customer'', JObj [(''timeframe'', JObj
          [(''earliest_date'', JNull), (''latest_date'', JNull)])])])])]))
     = [PText [], PData (JObj []), PPrompt ''Enter the path to the JSON file: '',
        PException TypeError]"
  by (simp add: sample_library_def either_or_error_def script engine validators)

section \<open>Date formats\<close>

text \<open>
  Claim C7 at its failing input. The two dates of a \<open>TimeFrame\<close> reject a string that
  is not a date with the error of their validator. \<open>Prospect.request_date\<close> has no
  validator: the same string is accepted there, and the document validates and is printed
  back.
\<close>

theorem request_date_unchecked:
  "\<not> fromisoformat sample_library ''next tuesday'' \<and>
   validate_attr sample_library TimeFrame ''earliest_date''
       [(''earliest_date'', JStr ''next tuesday'')]
     = Some (Invalid [value_error ''Invalid Earliest Date input'']) \<and>
   validate_attr sample_library TimeFrame ''latest_date''
       [(''latest_date'', JStr ''next tuesday'')]
     = Some (Invalid [value_error ''Invalid Latest Date input'']) \<and>
   validate_attr sample_library Prospect ''request_date''
       [(''requestdate'', JStr ''next tuesday'')]
     = Some (Ok (VStr ''next tuesday'')) \<and>
   main sample_library (Imported []) (Data (JObj [(''adf'', JObj [(''prospect'', JObj
       [(''requestdate'', JStr ''next tuesday'')])])]))
     = [PText [], PData (JObj []), PPrompt ''Enter the path to the JSON file: '',
        PLead (VModel Lead [(''adf'', VModel ADF [(''prospect'', VModel Prospect
          [(''status'', VNone), (''id'', VNone), (''request_date'', VStr ''next tuesday''),
           (''vehicle'', VNone), (''customer'', VNone), (''vendor'', VNone),
           (''provider'', VNone)])])]),
        PJson (JObj [(''adf'', JObj [(''prospect'', JObj
          [(''status'', JNull), (''id'', JNull), (''request_date'', JStr ''next tuesday''),
           (''vehicle'', JNull), (''customer'', JNull), (''vendor'', JNull),
           (''provider'', JNull)])])])]"
  by (simp add: sample_library_def attr_eval script engine validators)

section \<open>Null in a constrained optional field\<close>

text \<open>
  Claim C5 at its failing inputs. An absent \<open>weighting\<close> gives \<open>None\<close>, but an explicit
  null reaches \<open>validate_weighting\<close>, whose comparison raises \<open>TypeError\<close>; the same
  happens in \<open>validate_preference\<close>, the \<open>validate_currency\<close> functions and the date
  validators, and a null \<open>country\<close> is reported as an invalid country. The validators of
  the enumerated fields list \<open>None\<close> among the allowed values and accept null. The script
  ends with the handler of \<open>Exception\<close>.
\<close>

theorem null_weighting_raises:
  "validate_attr L Option_cls ''weighting'' [] = Some (Ok VNone) \<and>
   validate_attr L Option_cls ''weighting'' [(''weighting'', JNull)] = Some (Raised TypeError) \<and>
   validate_attr L ColorCombination ''preference'' [(''preference'', JNull)]
     = Some (Raised TypeError) \<and>
   validate_attr L Amount ''currency'' [(''@currency'', JNull)] = Some (Raised TypeError) \<and>
   validate_attr L TimeFrame ''latest_date'' [(''latest_date'', JNull)]
     = Some (Raised TypeError) \<and>
   validate_attr L Address ''country'' [(''country'', JNull)]
     = Some (Invalid [value_error ''Invalid Country input'']) \<and>
   validate_attr L Odometer ''status'' [(''@status'', JNull)] = Some (Ok VNone) \<and>
   main L (Imported xml) (Data (JObj [(''adf'', JObj [(''prospect'', JObj [(''vehicle'', JObj
       [(''year'', JStr ''2023''), (''make'', JStr ''Hyundai''), (''model'', JStr ''i30''),
        (''option'', JObj [(''weighting'', JNull)])])])])]))
     = [PText xml, PData (JObj []), PPrompt ''Enter the path to the JSON file: '',
        PException TypeError]"
  by (simp add: attr_eval script engine validators)

section \<open>Currency codes\<close>

text \<open>
  Claim C4 at its failing inputs. \<open>USD\<close> followed by a newline is not three uppercase
  letters, and \<open>Amount\<close> and \<open>Balance\<close> accept it. \<open>Price\<close> reads its currency under the
  key \<open>@curreny\<close>, so a \<open>Price\<close> whose \<open>@currency\<close> is \<open>usd\<close> validates with no
  currency at all. \<open>Amount\<close> rejects \<open>usd\<close> and accepts \<open>USD\<close>.
\<close>

theorem currency_not_exact:
  "validate_attr L Amount ''currency'' [(''@currency'', JStr [CHR ''U'', CHR ''S'', CHR ''D'', CHR 0x0A])]
     = Some (Ok (VStr [CHR ''U'', CHR ''S'', CHR ''D'', CHR 0x0A])) \<and>
   validate_attr L Balance ''currency'' [(''@currency'', JStr [CHR ''U'', CHR ''S'', CHR ''D'', CHR 0x0A])]
     = Some (Ok (VStr [CHR ''U'', CHR ''S'', CHR ''D'', CHR 0x0A])) \<and>
   validate_attr L Price ''currency'' [(''@currency'', JStr ''usd'')] = Some (Ok VNone) \<and>
   validate L (TModel Price) (JObj [(''@currency'', JStr ''usd'')])
     = Ok (VModel Price [(''type'', VNone), (''currency'', VNone), (''delta'', VNone),
         (''relative_to'', VNone), (''source'', VNone), (''price'', VNone)]) \<and>
   validate_attr L Amount ''currency'' [(''@currency'', JStr ''usd'')]
     = Some (Invalid [value_error ''Invalid Currency input'']) \<and>
   validate_attr L Amount ''currency'' [(''@currency'', JStr ''USD'')] = Some (Ok (VStr ''USD''))"
  by (simp add: attr_eval engine validators)

section \<open>Re-flattening\<close>

text \<open>
  Claim C1, as stated, fails on a tree with an attribute key: \<open>model_dump()\<close> writes
  field names, so \<open>@status\<close> comes back as \<open>status\<close>, and the tree printed is not
  equivalent to the one read.
\<close>

theorem alias_keys_not_restored:
  "main sample_library (Imported [])
       (Data (JObj [(''adf'', JObj [(''prospect'', JObj [(''@status'', JStr ''new'')])])]))
     = [PText [], PData (JObj []), PPrompt ''Enter the path to the JSON file: '',
        PLead (VModel Lead [(''adf'', VModel ADF [(''prospect'', VModel Prospect
          [(''status'', VStr ''new''), (''id'', VNone), (''request_date'', VNone),
           (''vehicle'', VNone), (''customer'', VNone), (''vendor'', VNone),
           (''provider'', VNone)])])]),
        PJson (JObj [(''adf'', JObj [(''prospect'', JObj
          [(''status'', JStr ''new''), (''id'', JNull), (''request_date'', JNull),
           (''vehicle'', JNull), (''customer'', JNull), (''vendor'', JNull),
           (''provider'', JNull)])])])] \<and>
   \<not> tree_equiv
       (JObj [(''adf'', JObj [(''prospect'', JObj [(''@status'', JStr ''new'')])])])
       (JObj [(''adf'', JObj [(''prospect'', JObj
          [(''status'', JStr ''new''), (''id'', JNull), (''request_date'', JNull),
           (''vehicle'', JNull), (''customer'', JNull), (''vendor'', JNull),
           (''provider'', JNull)])])])"
  by (simp add: tree_equiv_def script engine validators)

text \<open>
  Claim C1, amended. For every tree that validates against an annotation, re-flattening
  the validated value gives the tree as it reads under the declarations (\<open>rename\<close>):
  every record with all its declared fields, in declaration order, each under its field
  name and not its alias, holding the value read under the field's key, with strings
  unchanged, integer fields as integers, null for an absent key, and without the keys
  that no field reads. The example tree of the specification, which has no alias keys,
  validates and re-flattens to a tree equivalent to it up to added nulls.
\<close>

theorem dump_by_field_name:
  "(validate L t v = Ok x \<longrightarrow> model_dump x = rename L t v) \<and>
   (\<exists>lead. Lead_init L example_tree = Ok lead \<and> tree_equiv example_tree (model_dump lead))"
proof
  show "validate L t v = Ok x \<longrightarrow> model_dump x = rename L t v"
    by (auto dest: dump_rename)
  show "\<exists>lead. Lead_init L example_tree = Ok lead \<and> tree_equiv example_tree (model_dump lead)"
    unfolding example_validates by (simp add: example_tree_def tree_equiv_def)
qed

theorem dump_by_field_name_witness:
  "rename sample_library (TModel Odometer)
       (JObj [(''@status'', JStr ''original''), (''#text'', JStr ''150''), (''note'', JInt 7)])
     = JObj [(''status'', JStr ''original''), (''units'', JNull), (''odometer'', JInt 150)]"
  using dump_by_field_name [of sample_library "TModel Odometer"
      "JObj [(''@status'', JStr ''original''), (''#text'', JStr ''150''), (''note'', JInt 7)]"
      "VModel Odometer [(''status'', VStr ''original''), (''units'', VNone),
         (''odometer'', VInt 150)]"]
  by (simp add: sample_library_def engine validators)

end
